theory Spec2Isabelle
  imports Complex_Main "HOL-Library.AList"
begin

section \<open>Index documents as JSON values\<close>

text \<open>
  The connector service keeps its state in loosely typed index documents: Python
  dictionaries read from JSON. A document value is \<open>None\<close>, a boolean, an integer, a
  string, a list or a dictionary with string keys. A dictionary is an association list
  with distinct keys, in insertion order.
\<close>

datatype json =
    JNull
  | JBool bool
  | JInt int
  | JStr string
  | JList "json list"
  | JObj "(string \<times> json) list"

type_synonym dict = "(string \<times> json) list"

text \<open>Python's truth value of a document value (\<open>if x:\<close>, \<open>not x\<close>, \<open>any\<close>).\<close>

fun truthy :: "json \<Rightarrow> bool" where
  "truthy JNull = False"
| "truthy (JBool b) = b"
| "truthy (JInt i) = (i \<noteq> 0)"
| "truthy (JStr s) = (s \<noteq> [])"
| "truthy (JList xs) = (xs \<noteq> [])"
| "truthy (JObj d) = (d \<noteq> [])"

text \<open>\<open>d.get(k, default)\<close>, \<open>k in d\<close> and \<open>d[k] = v\<close> on a dictionary.\<close>

definition dict_get :: "dict \<Rightarrow> string \<Rightarrow> json \<Rightarrow> json" where
  "dict_get d k dflt = (case map_of d k of None \<Rightarrow> dflt | Some v \<Rightarrow> v)"

definition has_key :: "dict \<Rightarrow> string \<Rightarrow> bool" where
  "has_key d k = (map_of d k \<noteq> None)"

definition setitem :: "dict \<Rightarrow> string \<Rightarrow> json \<Rightarrow> dict" where
  "setitem d k v = AList.update k v d"

text \<open>\<open>d.update(other)\<close>: the items of \<open>other\<close> are stored one by one, in order.\<close>

definition dict_update :: "dict \<Rightarrow> dict \<Rightarrow> dict" where
  "dict_update d other = fold (\<lambda>(k, v) acc. setitem acc k v) other d"

text \<open>The exceptions the modelled code raises.\<close>

datatype error =
    ValueError
  | KeyError
  | TypeError
  | AttributeError
  | ServiceTypeNotSupportedError string
  | ServiceTypeNotConfiguredError
  | ConnectorUpdateError
  | DataSourceError
  | InvalidFilteringError

text \<open>
  Iterating over a value (\<open>for x in v\<close>, \<open>list(v)\<close>): a list gives its elements,
  a dictionary its keys, a string its characters; a number, a boolean or \<open>None\<close>
  cannot be iterated over. \<open>v[k]\<close> with a string \<open>k\<close> needs a dictionary that has
  the key; \<open>len(v)\<close> needs a list, a dictionary or a string.
\<close>

definition iterate :: "json \<Rightarrow> error + json list" where
  "iterate v =
     (case v of
        JList xs \<Rightarrow> Inr xs
      | JObj m \<Rightarrow> Inr (map (\<lambda>(k, x). JStr k) m)
      | JStr s \<Rightarrow> Inr (map (\<lambda>ch. JStr [ch]) s)
      | _ \<Rightarrow> Inl TypeError)"



section \<open>Document wrappers\<close>

text \<open>
  A wrapper (\<open>Connector\<close>, \<open>SyncJob\<close>) is a view of one index document: its id and
  its \<open>_source\<close> dictionary.
\<close>

record ESDocument =
  doc_id :: string
  source :: dict

text \<open>
  Modelled from the spec: the base class \<open>ESDocument\<close> (module \<open>connectors.es\<close>) is not
  among the sources. Its accessor \<open>get(*keys, default=None)\<close> is, in the words of the
  spec, "an accessor that tolerates absent fields with defaults": it follows the keys
  through nested dictionaries and answers the default when a key is absent, when a
  value on the way is not a dictionary, or when the value found is \<open>None\<close>.
\<close>

fun walk :: "json \<Rightarrow> string list \<Rightarrow> json" where
  "walk v [] = v"
| "walk (JObj d) (k # ks) = walk (dict_get d k JNull) ks"
| "walk _ (k # ks) = JNull"

definition get :: "ESDocument \<Rightarrow> string list \<Rightarrow> json \<Rightarrow> json" where
  "get doc keys dflt =
     (case walk (JObj (source doc)) keys of JNull \<Rightarrow> dflt | v \<Rightarrow> v)"

text \<open>
  One call of the index gateway, \<open>index.update(doc_id=..., doc=...)\<close>: the id and
  the patch. \<open>written r k\<close> is the value the call \<open>r\<close> writes under the key \<open>k\<close>
  (\<open>None\<close> when the patch has no such key, or when the method raised).
\<close>

datatype index_call = Update string dict

fun patch :: "index_call \<Rightarrow> dict" where
  "patch (Update i doc) = doc"

definition written :: "error + index_call \<Rightarrow> string \<Rightarrow> json option" where
  "written r k = (case r of Inl e \<Rightarrow> None | Inr call \<Rightarrow> map_of (patch call) k)"

section \<open>Status enumerations\<close>

datatype Status =
    CREATED
  | NEEDS_CONFIGURATION
  | CONFIGURED
  | CONNECTED
  | ERROR
  | UNSET

datatype JobStatus =
    PENDING
  | IN_PROGRESS
  | CANCELING
  | CANCELED
  | SUSPENDED
  | COMPLETED
  | ERROR
  | UNSET

text \<open>\<open>member.value\<close> of the two enumerations.\<close>

fun Status_value :: "Status \<Rightarrow> json" where
  "Status_value CREATED = JStr ''created''"
| "Status_value NEEDS_CONFIGURATION = JStr ''needs_configuration''"
| "Status_value CONFIGURED = JStr ''configured''"
| "Status_value CONNECTED = JStr ''connected''"
| "Status_value Status.ERROR = JStr ''error''"
| "Status_value Status.UNSET = JNull"

fun JobStatus_value :: "JobStatus \<Rightarrow> json" where
  "JobStatus_value PENDING = JStr ''pending''"
| "JobStatus_value IN_PROGRESS = JStr ''in_progress''"
| "JobStatus_value CANCELING = JStr ''canceling''"
| "JobStatus_value CANCELED = JStr ''canceled''"
| "JobStatus_value SUSPENDED = JStr ''suspended''"
| "JobStatus_value COMPLETED = JStr ''completed''"
| "JobStatus_value JobStatus.ERROR = JStr ''error''"
| "JobStatus_value JobStatus.UNSET = JNull"

text \<open>
  \<open>JobStatus(value)\<close>: the member with that value; Python raises \<open>ValueError\<close> when
  there is none.
\<close>

definition JobStatus_of_value :: "json \<Rightarrow> error + JobStatus" where
  "JobStatus_of_value v =
     (if v = JStr ''pending'' then Inr PENDING
      else if v = JStr ''in_progress'' then Inr IN_PROGRESS
      else if v = JStr ''canceling'' then Inr CANCELING
      else if v = JStr ''canceled'' then Inr CANCELED
      else if v = JStr ''suspended'' then Inr SUSPENDED
      else if v = JStr ''completed'' then Inr COMPLETED
      else if v = JStr ''error'' then Inr JobStatus.ERROR
      else if v = JNull then Inr JobStatus.UNSET
      else Inl ValueError)"

section \<open>SyncJob\<close>

definition job_status :: "ESDocument \<Rightarrow> error + JobStatus" where
  "job_status j = JobStatus_of_value (get j [''status''] JNull)"

definition job_error :: "ESDocument \<Rightarrow> json" where
  "job_error j = get j [''error''] JNull"

definition job_terminated :: "ESDocument \<Rightarrow> error + bool" where
  "job_terminated j =
     (case job_status j of
        Inl e \<Rightarrow> Inl e
      | Inr s \<Rightarrow> Inr (s \<in> {JobStatus.ERROR, COMPLETED, CANCELED}))"

definition job_indexed_document_count :: "ESDocument \<Rightarrow> json" where
  "job_indexed_document_count j = get j [''indexed_document_count''] (JInt 0)"

definition job_deleted_document_count :: "ESDocument \<Rightarrow> json" where
  "job_deleted_document_count j = get j [''deleted_document_count''] (JInt 0)"

text \<open>
  \<open>SyncJob._terminate\<close>. The clock \<open>iso_utc\<close> (module \<open>connectors.utils\<close>) is a
  parameter: \<open>iso_utc n\<close> is the timestamp its call number \<open>n\<close> in this method
  returns. \<open>None\<close> for the ingestion statistics or the metadata is the empty
  dictionary.
\<close>

definition job_terminate ::
  "(nat \<Rightarrow> string) \<Rightarrow> ESDocument \<Rightarrow> JobStatus \<Rightarrow> json \<Rightarrow> dict option \<Rightarrow> dict option
     \<Rightarrow> index_call" where
  "job_terminate iso_utc j status err ingestion_stats connector_metadata =
     (let ingestion_stats = (case ingestion_stats of None \<Rightarrow> [] | Some d \<Rightarrow> d);
          connector_metadata = (case connector_metadata of None \<Rightarrow> [] | Some d \<Rightarrow> d);
          doc = [(''last_seen'', JStr (iso_utc 0)),
                 (''status'', JobStatus_value status),
                 (''error'', err)];
          doc = (if status \<in> {JobStatus.ERROR, COMPLETED, CANCELED}
                 then setitem doc ''completed_at'' (JStr (iso_utc 1)) else doc);
          doc = (if status = CANCELED
                 then setitem doc ''canceled_at'' (JStr (iso_utc 2)) else doc);
          doc = dict_update doc ingestion_stats;
          doc = (if length connector_metadata > 0
                 then setitem doc ''metadata'' (JObj connector_metadata) else doc)
      in Update (doc_id j) doc)"

text \<open>\<open>done\<close>, \<open>fail\<close>, \<open>cancel\<close> and \<open>suspend\<close>; \<open>fail\<close> writes \<open>str(message)\<close>.\<close>

definition job_done ::
  "(nat \<Rightarrow> string) \<Rightarrow> ESDocument \<Rightarrow> dict option \<Rightarrow> dict option \<Rightarrow> index_call" where
  "job_done iso_utc j ingestion_stats connector_metadata =
     job_terminate iso_utc j COMPLETED JNull ingestion_stats connector_metadata"

definition job_fail ::
  "(nat \<Rightarrow> string) \<Rightarrow> ESDocument \<Rightarrow> string \<Rightarrow> dict option \<Rightarrow> dict option \<Rightarrow> index_call" where
  "job_fail iso_utc j message ingestion_stats connector_metadata =
     job_terminate iso_utc j JobStatus.ERROR (JStr message) ingestion_stats connector_metadata"

definition job_cancel ::
  "(nat \<Rightarrow> string) \<Rightarrow> ESDocument \<Rightarrow> dict option \<Rightarrow> dict option \<Rightarrow> index_call" where
  "job_cancel iso_utc j ingestion_stats connector_metadata =
     job_terminate iso_utc j CANCELED JNull ingestion_stats connector_metadata"

definition job_suspend ::
  "(nat \<Rightarrow> string) \<Rightarrow> ESDocument \<Rightarrow> dict option \<Rightarrow> dict option \<Rightarrow> index_call" where
  "job_suspend iso_utc j ingestion_stats connector_metadata =
     job_terminate iso_utc j SUSPENDED JNull ingestion_stats connector_metadata"

section \<open>Filtering\<close>

text \<open>
  Modelled from the spec: the enumeration \<open>FilteringValidationState\<close> (module
  \<open>connectors.filtering.validation\<close>) is not among the sources. The spec names the
  validation states \<open>edited\<close>, \<open>valid\<close>, \<open>invalid\<close> and \<open>unset\<close>, the last one, as
  in every status enumeration, for an absent field.
\<close>

datatype FilteringValidationState =
    VALID
  | INVALID
  | EDITED
  | UNSET

fun FilteringValidationState_value :: "FilteringValidationState \<Rightarrow> json" where
  "FilteringValidationState_value VALID = JStr ''valid''"
| "FilteringValidationState_value INVALID = JStr ''invalid''"
| "FilteringValidationState_value EDITED = JStr ''edited''"
| "FilteringValidationState_value FilteringValidationState.UNSET = JNull"

definition FilteringValidationState_of_value :: "json \<Rightarrow> error + FilteringValidationState" where
  "FilteringValidationState_of_value v =
     (if v = JStr ''valid'' then Inr VALID
      else if v = JStr ''invalid'' then Inr INVALID
      else if v = JStr ''edited'' then Inr EDITED
      else if v = JNull then Inr FilteringValidationState.UNSET
      else Inl ValueError)"

text \<open>
  A \<open>Filter\<close> is a dictionary (its \<open>items\<close>) with three attributes read from it when
  it is built. \<open>Filter(filter_)\<close> takes \<open>None\<close> for the empty dictionary, hands
  \<open>filter_\<close> to the constructor of \<open>dict\<close> and then calls \<open>filter_.get\<close>. On a value
  that is no dictionary one of the two raises. \<open>dict\<close> of a list wants every
  element to be a pair: it raises \<open>TypeError\<close> on an element that cannot be iterated
  over or whose first component cannot be hashed, and \<open>ValueError\<close> on one that has
  not two components (a string of two characters and a dictionary of two keys do
  pass); \<open>dict\<close> of a string meets one-character strings, \<open>dict\<close> of a number or
  boolean raises \<open>TypeError\<close>. Where \<open>dict\<close> passes, a list or string has no
  \<open>get\<close>: \<open>AttributeError\<close>.
\<close>

record Filter =
  items :: dict
  advanced_rules :: json
  basic_rules :: json
  validation :: json

fun pair_error :: "json \<Rightarrow> error option" where
  "pair_error (JList [JList k, v]) = Some TypeError"
| "pair_error (JList [JObj k, v]) = Some TypeError"
| "pair_error (JList [k, v]) = None"
| "pair_error (JList xs) = Some ValueError"
| "pair_error (JStr s) = (if length s = 2 then None else Some ValueError)"
| "pair_error (JObj m) = (if length m = 2 then None else Some ValueError)"
| "pair_error _ = Some TypeError"

fun pairs_error :: "json list \<Rightarrow> error option" where
  "pairs_error [] = None"
| "pairs_error (x # xs) =
     (case pair_error x of Some e \<Rightarrow> Some e | None \<Rightarrow> pairs_error xs)"

definition Filter_init :: "json \<Rightarrow> error + Filter" where
  "Filter_init flt =
     (case (if flt = JNull then JObj [] else flt) of
        JObj d \<Rightarrow>
          Inr \<lparr>items = d,
               advanced_rules = dict_get d ''advanced_snippet'' (JObj []),
               basic_rules = dict_get d ''rules'' (JList []),
               validation = dict_get d ''validation''
                 (JObj [(''state'', FilteringValidationState_value VALID),
                        (''errors'', JList [])])\<rparr>
      | JList xs \<Rightarrow>
          (case pairs_error xs of Some e \<Rightarrow> Inl e | None \<Rightarrow> Inl AttributeError)
      | JStr s \<Rightarrow> if s = [] then Inl AttributeError else Inl ValueError
      | _ \<Rightarrow> Inl TypeError)"

text \<open>
  \<open>Filter.has_validation_state\<close>: \<open>self.validation["state"]\<close> raises \<open>TypeError\<close> on
  a validation that is no dictionary and \<open>KeyError\<close> on one without a state.
\<close>

definition has_validation_state :: "Filter \<Rightarrow> FilteringValidationState \<Rightarrow> error + bool" where
  "has_validation_state f validation_state =
     (case validation f of
        JObj v \<Rightarrow>
          (case map_of v ''state'' of
             None \<Rightarrow> Inl KeyError
           | Some x \<Rightarrow>
               (case FilteringValidationState_of_value x of
                  Inl e \<Rightarrow> Inl e
                | Inr st \<Rightarrow> Inr (st = validation_state)))
      | _ \<Rightarrow> Inl TypeError)"

definition DEFAULT_DOMAIN :: string where
  "DEFAULT_DOMAIN = ''DEFAULT''"

text \<open>
  \<open>Filtering.get_filter\<close>: the first bundle whose domain matches, projected to the
  slot \<open>filter_state\<close>, or the empty \<open>Filter\<close>. The generator reads
  \<open>filter_["domain"]\<close> of every bundle up to the first match (\<open>KeyError\<close> when the
  key is absent, \<open>TypeError\<close> when the bundle is no dictionary), then
  \<open>filter_[filter_state]\<close> of the match.
\<close>

fun find_filter :: "json list \<Rightarrow> string \<Rightarrow> string \<Rightarrow> error + Filter" where
  "find_filter [] filter_state domain = Filter_init JNull"
| "find_filter (JObj b # bs) filter_state domain =
     (case map_of b ''domain'' of
        None \<Rightarrow> Inl KeyError
      | Some dm \<Rightarrow>
          if dm = JStr domain then
            (case map_of b filter_state of
               None \<Rightarrow> Inl KeyError
             | Some f \<Rightarrow> Filter_init f)
          else find_filter bs filter_state domain)"
| "find_filter (_ # bs) filter_state domain = Inl TypeError"

text \<open>
  The \<open>filtering\<close> attribute of a \<open>Filtering\<close> is whatever the document holds
  (\<open>None\<close> becomes the empty list). Iterating over an empty dictionary or string finds
  no bundle; a non-empty one yields strings, which cannot be subscripted by
  \<open>"domain"\<close>; the other values cannot be iterated over.
\<close>

definition get_filter :: "json \<Rightarrow> string \<Rightarrow> string \<Rightarrow> error + Filter" where
  "get_filter filtering filter_state domain =
     (case filtering of
        JList bs \<Rightarrow> find_filter bs filter_state domain
      | JObj m \<Rightarrow> if m = [] then Filter_init JNull else Inl TypeError
      | JStr s \<Rightarrow> if s = [] then Filter_init JNull else Inl TypeError
      | _ \<Rightarrow> Inl TypeError)"

definition get_active_filter :: "json \<Rightarrow> error + Filter" where
  "get_active_filter filtering = get_filter filtering ''active'' DEFAULT_DOMAIN"

definition get_draft_filter :: "json \<Rightarrow> error + Filter" where
  "get_draft_filter filtering = get_filter filtering ''draft'' DEFAULT_DOMAIN"

text \<open>
  \<open>Filtering.to_list\<close>: \<open>list(self.filtering)\<close>. A dictionary gives its keys, a
  string its characters; \<open>list\<close> of a number, a boolean or \<open>None\<close> raises
  \<open>TypeError\<close>.
\<close>

definition to_list :: "json \<Rightarrow> error + json list" where
  "to_list filtering = iterate filtering"

section \<open>Features\<close>

definition BASIC_RULES_NEW :: string where
  "BASIC_RULES_NEW = ''basic_rules_new''"

definition ADVANCED_RULES_NEW :: string where
  "ADVANCED_RULES_NEW = ''advanced_rules_new''"

definition BASIC_RULES_OLD :: string where
  "BASIC_RULES_OLD = ''basic_rules_old''"

definition ADVANCED_RULES_OLD :: string where
  "ADVANCED_RULES_OLD = ''advanced_rules_old''"

record Features =
  features :: json

definition Features_init :: "json \<Rightarrow> Features" where
  "Features_init v = \<lparr>features = (if v = JNull then JObj [] else v)\<rparr>"

text \<open>
  The local function \<open>nested_get\<close> of \<open>Features._nested_feature_enabled\<close>; its three
  tests are taken in the order of the source.
\<close>

fun nested_get :: "json \<Rightarrow> string list \<Rightarrow> json \<Rightarrow> json" where
  "nested_get JNull keys dflt = dflt"
| "nested_get dictionary [] dflt = dictionary"
| "nested_get (JObj m) (k # keys) dflt = nested_get (dict_get m k JNull) keys dflt"
| "nested_get _ (k # keys) dflt = dflt"

definition nested_feature_enabled :: "Features \<Rightarrow> string list \<Rightarrow> json \<Rightarrow> json" where
  "nested_feature_enabled F keys dflt = nested_get (features F) keys dflt"

text \<open>
  \<open>Features.feature_enabled\<close> answers the value found, whatever it is;
  \<open>self.features.get\<close> raises \<open>AttributeError\<close> when the features are no dictionary.
\<close>

definition feature_enabled :: "Features \<Rightarrow> string \<Rightarrow> error + json" where
  "feature_enabled F feature =
     (if feature = BASIC_RULES_NEW then
        Inr (nested_feature_enabled F [''sync_rules'', ''basic'', ''enabled''] (JBool False))
      else if feature = ADVANCED_RULES_NEW then
        Inr (nested_feature_enabled F [''sync_rules'', ''advanced'', ''enabled''] (JBool False))
      else if feature = BASIC_RULES_OLD then
        (case features F of
           JObj m \<Rightarrow> Inr (dict_get m ''filtering_rules'' (JBool False))
         | _ \<Rightarrow> Inl AttributeError)
      else if feature = ADVANCED_RULES_OLD then
        (case features F of
           JObj m \<Rightarrow> Inr (dict_get m ''filtering_advanced_config'' (JBool False))
         | _ \<Rightarrow> Inl AttributeError)
      else Inr (JBool False))"

text \<open>
  \<open>Features.sync_rules_enabled\<close>: the list of the four answers is built first, in
  the order of the source, then \<open>any\<close> takes their truth values.
\<close>

definition sync_rules_enabled :: "Features \<Rightarrow> error + bool" where
  "sync_rules_enabled F =
     (case feature_enabled F BASIC_RULES_NEW of Inl e \<Rightarrow> Inl e | Inr a \<Rightarrow>
      (case feature_enabled F BASIC_RULES_OLD of Inl e \<Rightarrow> Inl e | Inr b \<Rightarrow>
      (case feature_enabled F ADVANCED_RULES_NEW of Inl e \<Rightarrow> Inl e | Inr c \<Rightarrow>
      (case feature_enabled F ADVANCED_RULES_OLD of Inl e \<Rightarrow> Inl e | Inr d \<Rightarrow>
         Inr (list_ex truthy [a, b, c, d])))))"

text \<open>
  The flag as the spec words it, to compare the code with: "nested
  \<open>sync_rules.basic.enabled\<close> (bool, default false)", and the same under
  \<open>advanced\<close>. It reads the stored path key by key: the value stored under
  \<open>enabled\<close> in the dictionary stored under \<open>kind\<close> in the dictionary stored under
  \<open>sync_rules\<close>, and false when a key on the path is absent, when a value on the
  path is no dictionary, or when \<open>None\<close> is stored.
\<close>

definition sync_rules_flag :: "dict \<Rightarrow> string \<Rightarrow> json" where
  "sync_rules_flag m kind =
     (case map_of m ''sync_rules'' of
        Some (JObj sync_rules) \<Rightarrow>
          (case map_of sync_rules kind of
             Some (JObj rules) \<Rightarrow>
               (case map_of rules ''enabled'' of
                  Some v \<Rightarrow> if v = JNull then JBool False else v
                | None \<Rightarrow> JBool False)
           | _ \<Rightarrow> JBool False)
      | _ \<Rightarrow> JBool False)"

section \<open>Connector\<close>

definition SYNC_DISABLED :: real where
  "SYNC_DISABLED = - 1"

definition sync_now :: "ESDocument \<Rightarrow> json" where
  "sync_now c = get c [''sync_now''] (JBool False)"

definition scheduling :: "ESDocument \<Rightarrow> json" where
  "scheduling c = get c [''scheduling''] (JObj [])"

text \<open>
  \<open>Connector.next_sync\<close>. The helper \<open>next_run\<close> (module \<open>connectors.utils\<close>), which
  turns the cron-like interval into seconds, is not among the sources and is a
  parameter. \<open>self.scheduling.get\<close> needs a dictionary: on any other value Python
  raises \<open>AttributeError\<close>.
\<close>

definition next_sync :: "(json \<Rightarrow> error + real) \<Rightarrow> ESDocument \<Rightarrow> error + real" where
  "next_sync next_run c =
     (if truthy (sync_now c) then Inr 0
      else (case scheduling c of
              JObj s \<Rightarrow>
                if \<not> truthy (dict_get s ''enabled'' (JBool False)) then Inr SYNC_DISABLED
                else next_run (dict_get s ''interval'' JNull)
            | _ \<Rightarrow> Inl AttributeError))"

definition JOB_NOT_FOUND_ERROR :: string where
  "JOB_NOT_FOUND_ERROR = ''Couldn't find the job''"

definition UNKNOWN_ERROR :: string where
  "UNKNOWN_ERROR = ''unknown error''"

text \<open>
  \<open>Connector.sync_done\<close>: \<open>job\<close> is \<open>None\<close> when the job was not found. Reading
  \<open>job.status\<close> raises when the stored status is no member of \<open>JobStatus\<close>.
\<close>

definition sync_done ::
  "(nat \<Rightarrow> string) \<Rightarrow> ESDocument \<Rightarrow> ESDocument option \<Rightarrow> error + index_call" where
  "sync_done iso_utc c job =
     (case (case job of None \<Rightarrow> Inr JobStatus.ERROR | Some j \<Rightarrow> job_status j) of
        Inl e \<Rightarrow> Inl e
      | Inr status \<Rightarrow>
          (let err = (case job of None \<Rightarrow> JStr JOB_NOT_FOUND_ERROR | Some j \<Rightarrow> job_error j);
               err = (if err = JNull \<and> status = JobStatus.ERROR
                      then JStr UNKNOWN_ERROR else err);
               connector_status =
                 (if status = JobStatus.ERROR then Status.ERROR else CONNECTED);
               doc = [(''last_sync_status'', JobStatus_value status),
                      (''last_synced'', JStr (iso_utc 0)),
                      (''last_sync_error'', err),
                      (''status'', Status_value connector_status),
                      (''error'', err)]
           in (case job of
                 None \<Rightarrow> Inr (Update (doc_id c) doc)
               | Some j \<Rightarrow>
                   (case job_terminated j of
                      Inl e \<Rightarrow> Inl e
                    | Inr t \<Rightarrow>
                        if t then
                          Inr (Update (doc_id c)
                            (setitem
                              (setitem doc ''last_indexed_document_count''
                                (job_indexed_document_count j))
                              ''last_deleted_document_count''
                              (job_deleted_document_count j)))
                        else Inr (Update (doc_id c) doc)))))"

definition service_type :: "ESDocument \<Rightarrow> json" where
  "service_type c = get c [''service_type''] JNull"

definition configuration :: "ESDocument \<Rightarrow> json" where
  "configuration c = get c [''configuration''] JNull"

text \<open>
  \<open>Connector.filtering\<close> and \<open>Connector.features\<close>: the \<open>filtering\<close> attribute of
  the \<open>Filtering\<close> built from the document (\<open>None\<close> becomes the empty list), and
  the \<open>Features\<close> built from it.
\<close>

definition filtering :: "ESDocument \<Rightarrow> json" where
  "filtering c = (case get c [''filtering''] JNull of JNull \<Rightarrow> JList [] | v \<Rightarrow> v)"

definition Connector_features :: "ESDocument \<Rightarrow> Features" where
  "Connector_features c = Features_init (get c [''features''] JNull)"

text \<open>
  What a method does to its collaborators, in order: a call of the validator, a call
  of the index gateway, a reload of the wrapper from the index. A method that is a
  no-op returns the empty list of events.
\<close>

datatype event =
    Validate Filter
  | IndexUpdate index_call
  | Reload

text \<open>
  \<open>Connector.prepare\<close>. The configuration \<open>config\<close> of the service holds, under the
  keys \<open>prepare\<close> reads, the connector id and the service type (strings, each
  possibly absent) and the mapping \<open>sources\<close> from service types to the qualified
  names of the adapter classes (possibly absent).
\<close>

record config =
  cfg_connector_id :: "string option"
  cfg_service_type :: "string option"
  cfg_sources :: "(string \<times> string) list option"

text \<open>
  \<open>config.get("connector_id", "")\<close> and \<open>config.get("service_type", "")\<close>, the
  first two lines of \<open>prepare\<close>.
\<close>

definition configured_connector_id_of :: "config \<Rightarrow> string" where
  "configured_connector_id_of cfg =
     (case cfg_connector_id cfg of None \<Rightarrow> [] | Some s \<Rightarrow> s)"

definition configured_service_type_of :: "config \<Rightarrow> string" where
  "configured_service_type_of cfg =
     (case cfg_service_type cfg of None \<Rightarrow> [] | Some s \<Rightarrow> s)"

text \<open>
  Three collaborators of \<open>prepare\<close> are not among the sources and are parameters:
  \<open>is_empty\<close>, for \<open>DataSourceConfiguration(...).is_empty()\<close> on the raw
  configuration of the connector; \<open>get_simple_configuration\<close>, for
  \<open>get_source_klass(fqn).get_simple_configuration()\<close>, \<open>None\<close> when either call
  raises; and \<open>update_ok\<close>, whether the index gateway accepts the update.
\<close>

definition prepare ::
  "(json \<Rightarrow> bool) \<Rightarrow> (string \<Rightarrow> json option) \<Rightarrow> (index_call \<Rightarrow> bool) \<Rightarrow> config
     \<Rightarrow> ESDocument \<Rightarrow> error + event list" where
  "prepare is_empty get_simple_configuration update_ok cfg c =
     (let configured_connector_id = configured_connector_id_of cfg;
          configured_service_type = configured_service_type_of cfg
      in
        if doc_id c \<noteq> configured_connector_id then Inr []
        else if service_type c \<noteq> JNull \<and> \<not> is_empty (configuration c) then Inr []
        else
          (case (if service_type c = JNull then
                   (if configured_service_type = [] then Inl ServiceTypeNotConfiguredError
                    else Inr [(''service_type'', JStr configured_service_type)])
                 else Inr []) of
             Inl e \<Rightarrow> Inl e
           | Inr doc \<Rightarrow>
               (case (if is_empty (configuration c) then
                        (case cfg_sources cfg of
                           None \<Rightarrow> Inl KeyError
                         | Some sources \<Rightarrow>
                             (case map_of sources configured_service_type of
                                None \<Rightarrow>
                                  Inl (ServiceTypeNotSupportedError configured_service_type)
                              | Some fqn \<Rightarrow>
                                  (case get_simple_configuration fqn of
                                     None \<Rightarrow> Inl DataSourceError
                                   | Some conf \<Rightarrow>
                                       Inr (setitem (setitem doc ''configuration'' conf)
                                              ''status''
                                              (Status_value NEEDS_CONFIGURATION)))))
                      else Inr doc) of
                  Inl e \<Rightarrow> Inl e
                | Inr doc \<Rightarrow>
                    if update_ok (Update (doc_id c) doc)
                    then Inr [IndexUpdate (Update (doc_id c) doc), Reload]
                    else Inl ConnectorUpdateError)))"

text \<open>
  \<open>Connector.validate_filtering\<close>. The verdict of the validator is its state and
  the dictionary its \<open>to_dict()\<close> returns (the class of the verdict is not among the
  sources). For every bundle of the default domain the verdict is stored into the
  draft: into the draft itself when the bundle has one (\<open>TypeError\<close> when it is no
  dictionary), into a temporary dictionary that is then dropped when it has none;
  a valid verdict also copies the draft into the active slot.
\<close>

record validation_result =
  state :: FilteringValidationState
  to_dict :: json

definition store_verdict :: "validation_result \<Rightarrow> json \<Rightarrow> error + json" where
  "store_verdict res bundle =
     (case bundle of
        JObj b \<Rightarrow>
          if dict_get b ''domain'' (JStr []) = JStr DEFAULT_DOMAIN then
            (case (case map_of b ''draft'' of
                     None \<Rightarrow> Inr b
                   | Some (JObj d) \<Rightarrow>
                       Inr (setitem b ''draft'' (JObj (setitem d ''validation'' (to_dict res))))
                   | Some _ \<Rightarrow> Inl TypeError) of
               Inl e \<Rightarrow> Inl e
             | Inr b' \<Rightarrow>
                 if state res = VALID
                 then Inr (JObj (setitem b' ''active'' (dict_get b' ''draft'' JNull)))
                 else Inr (JObj b'))
          else Inr (JObj b)
      | _ \<Rightarrow> Inl AttributeError)"

fun store_verdicts :: "validation_result \<Rightarrow> json list \<Rightarrow> error + json list" where
  "store_verdicts res [] = Inr []"
| "store_verdicts res (bundle # bundles) =
     (case store_verdict res bundle of
        Inl e \<Rightarrow> Inl e
      | Inr bundle' \<Rightarrow>
          (case store_verdicts res bundles of
             Inl e \<Rightarrow> Inl e
           | Inr bundles' \<Rightarrow> Inr (bundle' # bundles')))"

definition validate_filtering ::
  "(Filter \<Rightarrow> validation_result) \<Rightarrow> ESDocument \<Rightarrow> error + event list" where
  "validate_filtering validator c =
     (case get_draft_filter (filtering c) of
        Inl e \<Rightarrow> Inl e
      | Inr draft_filter \<Rightarrow>
          (case has_validation_state draft_filter EDITED of
             Inl e \<Rightarrow> Inl e
           | Inr edited \<Rightarrow>
               if \<not> edited then Inr []
               else
                 (let validation_result = validator draft_filter
                  in (case to_list (filtering c) of
                        Inl e \<Rightarrow> Inl e
                      | Inr bundles \<Rightarrow>
                          (case store_verdicts validation_result bundles of
                             Inl e \<Rightarrow> Inl e
                           | Inr bundles' \<Rightarrow>
                               Inr [Validate draft_filter,
                                    IndexUpdate
                                      (Update (doc_id c) [(''filtering'', JList bundles')]),
                                    Reload])))))"

text \<open>A fixed clock, for the concrete inputs the theorems are exercised on.\<close>

definition sample_clock :: "nat \<Rightarrow> string" where
  "sample_clock n = ''2023-03-01T10:00:00+00:00''"

section \<open>Objects with identity: Filter.transform_filtering\<close>

text \<open>
  \<open>Filter.transform_filtering\<close> returns \<open>deepcopy(self)\<close>, and what a deep copy
  promises is about the identity of objects, which a document value does not have.
  An \<open>obj\<close> is a Python value as it lies in the heap: every list and every
  dictionary carries the address of its cell, so that two occurrences of one address
  are one shared object, and a mutation of the cell at an address is seen wherever
  the address occurs. \<open>erase\<close> forgets the addresses and gives the document value
  (Python's \<open>==\<close> compares these); \<open>addrs\<close> is the set of the cells of a value.
\<close>

datatype obj =
    ONull
  | OBool bool
  | OInt int
  | OStr string
  | OList nat "obj list"
  | ODict nat "(string \<times> obj) list"

fun erase :: "obj \<Rightarrow> json" where
  "erase ONull = JNull"
| "erase (OBool b) = JBool b"
| "erase (OInt i) = JInt i"
| "erase (OStr s) = JStr s"
| "erase (OList a xs) = JList (map erase xs)"
| "erase (ODict a kvs) = JObj (map (\<lambda>(k, v). (k, erase v)) kvs)"

fun addrs :: "obj \<Rightarrow> nat set" where
  "addrs (OList a xs) = insert a (\<Union>x \<in> set xs. addrs x)"
| "addrs (ODict a kvs) = insert a (\<Union>(k, v) \<in> set kvs. addrs v)"
| "addrs _ = {}"

text \<open>
  A mutation in place: the cell at the address \<open>a\<close> is changed by \<open>g\<close> (an item
  assignment, an append, a deletion), wherever it occurs in the value.
\<close>

fun mutate :: "nat \<Rightarrow> (obj \<Rightarrow> obj) \<Rightarrow> obj \<Rightarrow> obj" where
  "mutate a g (OList b xs) =
     (let xs' = map (mutate a g) xs
      in if b = a then g (OList b xs') else OList b xs')"
| "mutate a g (ODict b kvs) =
     (let kvs' = map (\<lambda>(k, v). (k, mutate a g v)) kvs
      in if b = a then g (ODict b kvs') else ODict b kvs')"
| "mutate a g x = x"

text \<open>
  \<open>copy.deepcopy\<close> of the standard library. The allocator is the first address not
  in use and the memo of the copy, from the address of a cell to the address of its
  copy: a cell met for the first time gets a fresh cell, entered into the memo before
  its contents are copied, and a cell met again gets the copy made then, so the copy
  shares what the original shares. Strings, numbers, booleans and \<open>None\<close> are
  returned as they are.
\<close>

type_synonym allocator = "nat \<times> (nat \<rightharpoonup> nat)"

definition copy_cell :: "nat \<Rightarrow> allocator \<Rightarrow> nat \<times> allocator" where
  "copy_cell a st =
     (case snd st a of
        Some a' \<Rightarrow> (a', st)
      | None \<Rightarrow> (fst st, (Suc (fst st), (snd st)(a \<mapsto> fst st))))"

fun deepcopy :: "obj \<Rightarrow> allocator \<Rightarrow> obj \<times> allocator"
  and deepcopy_list :: "obj list \<Rightarrow> allocator \<Rightarrow> obj list \<times> allocator"
  and deepcopy_items :: "(string \<times> obj) list \<Rightarrow> allocator \<Rightarrow> (string \<times> obj) list \<times> allocator"
where
  "deepcopy (OList a xs) st =
     (let (a', st1) = copy_cell a st;
          (ys, st2) = deepcopy_list xs st1
      in (OList a' ys, st2))"
| "deepcopy (ODict a kvs) st =
     (let (a', st1) = copy_cell a st;
          (kvs', st2) = deepcopy_items kvs st1
      in (ODict a' kvs', st2))"
| "deepcopy x st = (x, st)"
| "deepcopy_list [] st = ([], st)"
| "deepcopy_list (x # xs) st =
     (let (y, st1) = deepcopy x st;
          (ys, st2) = deepcopy_list xs st1
      in (y # ys, st2))"
| "deepcopy_items [] st = ([], st)"
| "deepcopy_items ((k, v) # kvs) st =
     (let (v', st1) = deepcopy v st;
          (kvs', st2) = deepcopy_items kvs st1
      in ((k, v') # kvs', st2))"

text \<open>
  An allocator is fresh from \<open>n0\<close> on when it has handed out addresses from \<open>n0\<close> on
  only, below its next address.
\<close>

definition fresh_from :: "nat \<Rightarrow> allocator \<Rightarrow> bool" where
  "fresh_from n0 st = (n0 \<le> fst st \<and> (\<forall>a b. snd st a = Some b \<longrightarrow> n0 \<le> b \<and> b < fst st))"

text \<open>
  \<open>Filter.transform_filtering\<close>, on the \<open>Filter\<close> whose dictionary lies at
  \<open>self_addr\<close> with the items \<open>self_items\<close>; \<open>n\<close> is the first address not in use.
  The literal of the empty case allocates its two values, then the dictionary. The
  result is the object returned and the next free address.
\<close>

definition transform_filtering :: "nat \<Rightarrow> (string \<times> obj) list \<Rightarrow> nat \<Rightarrow> obj \<times> nat" where
  "transform_filtering self_addr self_items n =
     (if length self_items = 0 then
        (ODict (n + 2) [(''advanced_snippet'', ODict n []), (''rules'', OList (n + 1) [])],
         n + 3)
      else
        (let (filtering, st) = deepcopy (ODict self_addr self_items) (n, Map.empty)
         in (filtering, fst st)))"

section \<open>Jira: the producers and the consume loop of get_docs\<close>





















section \<open>Concrete inputs\<close>

text \<open>
  Concrete collaborators of \<open>prepare\<close>: a configuration is empty when it is absent
  or has no option; one adapter class is known; the index gateway accepts every
  update.
\<close>

definition sample_is_empty :: "json \<Rightarrow> bool" where
  "sample_is_empty conf = (conf = JNull \<or> conf = JObj [])"

definition sample_simple_configuration :: "string \<Rightarrow> json option" where
  "sample_simple_configuration fqn =
     (if fqn = ''connectors.sources.mongo:MongoDataSource''
      then Some (JObj [(''host'', JObj [(''value'', JStr ''mongodb://127.0.0.1:27021'')])])
      else None)"

definition sample_update_ok :: "index_call \<Rightarrow> bool" where
  "sample_update_ok call = True"


section \<open>Properties\<close>

subsection \<open>Connector.next_sync\<close>

text \<open>
  C1. \<open>next_sync\<close> returns 0 whenever \<open>sync_now\<close> is true, whatever the scheduling
  field holds (so \<open>sync_now\<close> wins over a disabled schedule); it returns
  \<open>SYNC_DISABLED = -1\<close> whenever \<open>sync_now\<close> is false and \<open>scheduling.enabled\<close> is
  false or absent; otherwise it returns what \<open>next_run\<close> computes from
  \<open>scheduling.interval\<close>.
\<close>

theorem next_sync_cases:
  "(truthy (sync_now c) \<longrightarrow> next_sync next_run c = Inr 0) \<and>
   (\<not> truthy (sync_now c) \<and> scheduling c = JObj s \<and>
      (map_of s ''enabled'' = None \<or> map_of s ''enabled'' = Some (JBool False))
      \<longrightarrow> next_sync next_run c = Inr SYNC_DISABLED \<and> SYNC_DISABLED = - 1) \<and>
   (\<not> truthy (sync_now c) \<and> scheduling c = JObj s \<and>
      map_of s ''enabled'' = Some (JBool True)
      \<longrightarrow> next_sync next_run c = next_run (dict_get s ''interval'' JNull))"
  by (auto simp: next_sync_def dict_get_def SYNC_DISABLED_def)

theorem next_sync_cases_witness:
  "next_sync (\<lambda>i. Inr 60)
     \<lparr>doc_id = ''1'', source = [(''sync_now'', JBool True),
        (''scheduling'', JObj [(''enabled'', JBool False)])]\<rparr> = Inr 0 \<and>
   next_sync (\<lambda>i. Inr 60)
     \<lparr>doc_id = ''1'', source = [(''sync_now'', JBool False),
        (''scheduling'', JObj [(''enabled'', JBool False)])]\<rparr> = Inr (- 1) \<and>
   next_sync (\<lambda>i. Inr 60)
     \<lparr>doc_id = ''1'', source = []\<rparr> = Inr (- 1) \<and>
   next_sync (\<lambda>i. if i = JStr ''0 0 * * * ?'' then Inr 60 else Inl ValueError)
     \<lparr>doc_id = ''1'', source = [(''scheduling'',
        JObj [(''enabled'', JBool True), (''interval'', JStr ''0 0 * * * ?'')])]\<rparr> = Inr 60"
proof -
  have a: "next_sync (\<lambda>i. Inr 60)
     \<lparr>doc_id = ''1'', source = [(''sync_now'', JBool True),
        (''scheduling'', JObj [(''enabled'', JBool False)])]\<rparr> = Inr 0"
    using next_sync_cases [of "\<lparr>doc_id = ''1'', source = [(''sync_now'', JBool True),
        (''scheduling'', JObj [(''enabled'', JBool False)])]\<rparr>" "\<lambda>i. Inr 60" "[]"]
    by (simp add: sync_now_def get_def dict_get_def)
  have b: "next_sync (\<lambda>i. Inr 60)
     \<lparr>doc_id = ''1'', source = [(''sync_now'', JBool False),
        (''scheduling'', JObj [(''enabled'', JBool False)])]\<rparr> = Inr (- 1)"
    using next_sync_cases [of "\<lparr>doc_id = ''1'', source = [(''sync_now'', JBool False),
        (''scheduling'', JObj [(''enabled'', JBool False)])]\<rparr>"
        "\<lambda>i. Inr 60" "[(''enabled'', JBool False)]"]
    by (simp add: sync_now_def scheduling_def get_def dict_get_def)
  have c: "next_sync (\<lambda>i. Inr 60) \<lparr>doc_id = ''1'', source = []\<rparr> = Inr (- 1)"
    using next_sync_cases [of "\<lparr>doc_id = ''1'', source = []\<rparr>" "\<lambda>i. Inr 60" "[]"]
    by (simp add: sync_now_def scheduling_def get_def dict_get_def)
  have d: "next_sync (\<lambda>i. if i = JStr ''0 0 * * * ?'' then Inr 60 else Inl ValueError)
     \<lparr>doc_id = ''1'', source = [(''scheduling'',
        JObj [(''enabled'', JBool True), (''interval'', JStr ''0 0 * * * ?'')])]\<rparr> = Inr 60"
    using next_sync_cases [of "\<lparr>doc_id = ''1'', source = [(''scheduling'',
        JObj [(''enabled'', JBool True), (''interval'', JStr ''0 0 * * * ?'')])]\<rparr>"
        "\<lambda>i. if i = JStr ''0 0 * * * ?'' then Inr 60 else Inl ValueError"
        "[(''enabled'', JBool True), (''interval'', JStr ''0 0 * * * ?'')]"]
    by (simp add: sync_now_def scheduling_def get_def dict_get_def)
  show ?thesis using a b c d by simp
qed

subsection \<open>Helper facts on dictionaries and enumerations\<close>

lemma map_of_setitem: "map_of (setitem d k v) = (map_of d)(k \<mapsto> v)"
  by (simp add: setitem_def update_conv')

lemma map_of_dict_update_other:
  "k \<notin> fst ` set other \<Longrightarrow> map_of (dict_update d other) k = map_of d k"
  unfolding dict_update_def
  by (induction other arbitrary: d) (auto simp: map_of_setitem)

lemma JobStatus_value_of_value:
  "JobStatus_of_value v = Inr s \<Longrightarrow> JobStatus_value s = v"
  by (auto simp: JobStatus_of_value_def split: if_splits)

lemma has_key_setitem: "has_key (setitem d k v) k' = (k' = k \<or> has_key d k')"
  by (auto simp: has_key_def map_of_setitem)

lemma has_key_dict_update:
  "has_key (dict_update d other) k = (has_key d k \<or> has_key other k)"
  unfolding dict_update_def
proof (induction other arbitrary: d)
  case Nil
  then show ?case by (simp add: has_key_def)
next
  case (Cons p other)
  obtain k' v' where p: "p = (k', v')" by (cases p)
  have c: "has_key ((k', v') # other) k = (k = k' \<or> has_key other k)"
    by (auto simp: has_key_def)
  show ?case using Cons [of "setitem d k' v'"]
    by (auto simp: p has_key_setitem c)
qed

subsection \<open>Connector.sync_done\<close>

text \<open>
  C2. \<open>sync_done(None)\<close>, the job being absent, writes a patch in which
  \<open>last_sync_status\<close> is \<open>error\<close>, \<open>last_sync_error\<close> is exactly
  "Couldn't find the job", and \<open>status\<close> is \<open>error\<close>.
\<close>

theorem sync_done_job_not_found:
  "sync_done iso_utc c None =
     Inr (Update (doc_id c)
       [(''last_sync_status'', JStr ''error''),
        (''last_synced'', JStr (iso_utc 0)),
        (''last_sync_error'', JStr ''Couldn't find the job''),
        (''status'', JStr ''error''),
        (''error'', JStr ''Couldn't find the job'')]) \<and>
   written (sync_done iso_utc c None) ''last_sync_status'' = Some (JStr ''error'') \<and>
   written (sync_done iso_utc c None) ''last_sync_error'' = Some (JStr ''Couldn't find the job'') \<and>
   written (sync_done iso_utc c None) ''status'' = Some (JStr ''error'')"
  by (simp add: sync_done_def written_def JOB_NOT_FOUND_ERROR_def Let_def)

text \<open>
  C3. For a job whose stored status is a member of \<open>JobStatus\<close>, \<open>sync_done(job)\<close>
  writes \<open>last_sync_status = job.status\<close> (the very value stored in the job) and
  \<open>last_sync_error = job.error\<close>, except that it writes "unknown error" when the
  status is \<open>error\<close> and \<open>job.error\<close> is \<open>None\<close>; the connector status written is
  \<open>error\<close> if the job status is \<open>error\<close> and \<open>connected\<close> otherwise.
\<close>

theorem sync_done_job:
  assumes "job_status j = Inr s"
  shows "written (sync_done iso_utc c (Some j)) ''last_sync_status'' = Some (JobStatus_value s) \<and>
         JobStatus_value s = get j [''status''] JNull \<and>
         written (sync_done iso_utc c (Some j)) ''last_sync_error'' =
           Some (if s = JobStatus.ERROR \<and> job_error j = JNull
                 then JStr ''unknown error'' else job_error j) \<and>
         written (sync_done iso_utc c (Some j)) ''status'' =
           Some (if s = JobStatus.ERROR then JStr ''error'' else JStr ''connected'')"
proof -
  have v: "JobStatus_value s = get j [''status''] JNull"
    using assms by (simp add: job_status_def JobStatus_value_of_value)
  have t: "job_terminated j = Inr (s \<in> {JobStatus.ERROR, COMPLETED, CANCELED})"
    using assms by (simp add: job_terminated_def)
  show ?thesis
    using assms v t
    by (simp add: sync_done_def written_def map_of_setitem UNKNOWN_ERROR_def Let_def)
qed

theorem sync_done_job_witness:
  "written (sync_done sample_clock \<lparr>doc_id = ''c1'', source = []\<rparr>
      (Some \<lparr>doc_id = ''j1'', source = [(''status'', JStr ''error'')]\<rparr>)) ''last_sync_error''
     = Some (JStr ''unknown error'') \<and>
   written (sync_done sample_clock \<lparr>doc_id = ''c1'', source = []\<rparr>
      (Some \<lparr>doc_id = ''j1'', source = [(''status'', JStr ''error'')]\<rparr>)) ''status''
     = Some (JStr ''error'') \<and>
   written (sync_done sample_clock \<lparr>doc_id = ''c1'', source = []\<rparr>
      (Some \<lparr>doc_id = ''j2'', source = [(''status'', JStr ''completed'')]\<rparr>)) ''status''
     = Some (JStr ''connected'')"
proof -
  have e: "job_status \<lparr>doc_id = ''j1'', source = [(''status'', JStr ''error'')]\<rparr>
             = Inr JobStatus.ERROR"
    by (simp add: job_status_def get_def dict_get_def JobStatus_of_value_def)
  have k: "job_status \<lparr>doc_id = ''j2'', source = [(''status'', JStr ''completed'')]\<rparr>
             = Inr COMPLETED"
    by (simp add: job_status_def get_def dict_get_def JobStatus_of_value_def)
  show ?thesis
    using sync_done_job [OF e, of sample_clock "\<lparr>doc_id = ''c1'', source = []\<rparr>"]
          sync_done_job [OF k, of sample_clock "\<lparr>doc_id = ''c1'', source = []\<rparr>"]
    by (simp add: job_error_def get_def dict_get_def)
qed

text \<open>
  C9 (as amended). For every job argument, \<open>sync_done\<close> writes the connector's
  top-level \<open>error\<close> field to the same value as \<open>last_sync_error\<close>. That value is
  \<open>job.error\<close> whenever the job status is not \<open>error\<close>: the field is set to
  \<open>None\<close>, clearing an earlier error, exactly when the job itself carries no error.
\<close>

theorem sync_done_error_field:
  "written (sync_done iso_utc c job) ''last_sync_error'' =
     written (sync_done iso_utc c job) ''error'' \<and>
   (job = None \<longrightarrow>
      written (sync_done iso_utc c job) ''error'' = Some (JStr ''Couldn't find the job'')) \<and>
   (job = Some j \<and> job_status j = Inr s \<longrightarrow>
      written (sync_done iso_utc c job) ''error'' =
        Some (if s = JobStatus.ERROR \<and> job_error j = JNull
              then JStr ''unknown error'' else job_error j)) \<and>
   (job = Some j \<and> job_status j = Inr s \<and> s \<noteq> JobStatus.ERROR \<and> job_error j = JNull \<longrightarrow>
      written (sync_done iso_utc c job) ''error'' = Some JNull)"
  by (auto simp: sync_done_def written_def map_of_setitem UNKNOWN_ERROR_def
      JOB_NOT_FOUND_ERROR_def job_terminated_def Let_def split: sum.splits option.splits)

theorem sync_done_error_field_witness:
  "written (sync_done sample_clock \<lparr>doc_id = ''c1'', source = []\<rparr> None) ''error''
     = Some (JStr ''Couldn't find the job'') \<and>
   written (sync_done sample_clock \<lparr>doc_id = ''c1'', source = []\<rparr>
      (Some \<lparr>doc_id = ''j2'', source = [(''status'', JStr ''completed'')]\<rparr>)) ''error''
     = Some JNull"
proof -
  have k: "job_status \<lparr>doc_id = ''j2'', source = [(''status'', JStr ''completed'')]\<rparr>
             = Inr COMPLETED"
    by (simp add: job_status_def get_def dict_get_def JobStatus_of_value_def)
  have n: "job_error \<lparr>doc_id = ''j2'', source = [(''status'', JStr ''completed'')]\<rparr> = JNull"
    by (simp add: job_error_def get_def dict_get_def)
  have a: "written (sync_done sample_clock \<lparr>doc_id = ''c1'', source = []\<rparr> None) ''error''
     = Some (JStr ''Couldn't find the job'')"
    using sync_done_error_field [of sample_clock "\<lparr>doc_id = ''c1'', source = []\<rparr>" None]
    by simp
  have b: "written (sync_done sample_clock \<lparr>doc_id = ''c1'', source = []\<rparr>
      (Some \<lparr>doc_id = ''j2'', source = [(''status'', JStr ''completed'')]\<rparr>)) ''error''
     = Some JNull"
    using sync_done_error_field [of sample_clock "\<lparr>doc_id = ''c1'', source = []\<rparr>"
      "Some \<lparr>doc_id = ''j2'', source = [(''status'', JStr ''completed'')]\<rparr>"
      "\<lparr>doc_id = ''j2'', source = [(''status'', JStr ''completed'')]\<rparr>" COMPLETED] k n
    by simp
  show ?thesis using a b by simp
qed

text \<open>
  The claim as first stated (\<open>error\<close> is \<open>None\<close> after every sync whose job status
  is not \<open>error\<close>) fails for a completed job that still carries an error string:
  the string is copied into the connector.
\<close>

theorem sync_done_error_field_counterexample:
  "job_status \<lparr>doc_id = ''j3'', source = [(''status'', JStr ''completed''),
       (''error'', JStr ''boom'')]\<rparr> = Inr COMPLETED \<and>
   COMPLETED \<noteq> JobStatus.ERROR \<and>
   written (sync_done sample_clock \<lparr>doc_id = ''c1'', source = []\<rparr>
      (Some \<lparr>doc_id = ''j3'', source = [(''status'', JStr ''completed''),
         (''error'', JStr ''boom'')]\<rparr>)) ''error'' = Some (JStr ''boom'') \<and>
   JStr ''boom'' \<noteq> JNull"
  by (simp add: sync_done_def written_def job_status_def job_error_def job_terminated_def
      JobStatus_of_value_def get_def dict_get_def setitem_def Let_def)

subsection \<open>SyncJob.terminated and the terminating calls\<close>

text \<open>
  C4 (as amended). \<open>terminated\<close> is true iff the status is one of \<open>completed\<close>,
  \<open>error\<close>, \<open>canceled\<close>. When the ingestion statistics passed to a terminating call
  carry no \<open>completed_at\<close> and no \<open>canceled_at\<close> key of their own, the patch
  \<open>_terminate\<close> writes for the target status \<open>S\<close> contains \<open>completed_at\<close> iff \<open>S\<close>
  is one of \<open>completed\<close>, \<open>error\<close>, \<open>canceled\<close>, and \<open>canceled_at\<close> iff \<open>S\<close> is
  \<open>canceled\<close>: \<open>done\<close> and \<open>fail\<close> set \<open>completed_at\<close> only, \<open>cancel\<close> sets both,
  \<open>suspend\<close> sets neither.
\<close>

theorem terminated_and_terminate:
  "(job_status j = Inr s \<longrightarrow>
      job_terminated j = Inr (s \<in> {COMPLETED, JobStatus.ERROR, CANCELED})) \<and>
   (\<not> has_key (case stats of None \<Rightarrow> [] | Some d \<Rightarrow> d) ''completed_at'' \<and>
    \<not> has_key (case stats of None \<Rightarrow> [] | Some d \<Rightarrow> d) ''canceled_at'' \<longrightarrow>
      has_key (patch (job_terminate iso_utc j S err stats meta)) ''completed_at''
        = (S \<in> {COMPLETED, JobStatus.ERROR, CANCELED}) \<and>
      has_key (patch (job_terminate iso_utc j S err stats meta)) ''canceled_at''
        = (S = CANCELED) \<and>
      has_key (patch (job_done iso_utc j stats meta)) ''completed_at'' \<and>
      \<not> has_key (patch (job_done iso_utc j stats meta)) ''canceled_at'' \<and>
      has_key (patch (job_fail iso_utc j msg stats meta)) ''completed_at'' \<and>
      \<not> has_key (patch (job_fail iso_utc j msg stats meta)) ''canceled_at'' \<and>
      has_key (patch (job_cancel iso_utc j stats meta)) ''completed_at'' \<and>
      has_key (patch (job_cancel iso_utc j stats meta)) ''canceled_at'' \<and>
      \<not> has_key (patch (job_suspend iso_utc j stats meta)) ''completed_at'' \<and>
      \<not> has_key (patch (job_suspend iso_utc j stats meta)) ''canceled_at'')"
proof -
  have t: "job_status j = Inr s \<Longrightarrow>
      job_terminated j = Inr (s \<in> {COMPLETED, JobStatus.ERROR, CANCELED})"
    by (auto simp: job_terminated_def)
  have k: "has_key (patch (job_terminate iso_utc j T e stats meta)) ''completed_at''
             = (T \<in> {COMPLETED, JobStatus.ERROR, CANCELED}) \<and>
           has_key (patch (job_terminate iso_utc j T e stats meta)) ''canceled_at''
             = (T = CANCELED)"
    if "\<not> has_key (case stats of None \<Rightarrow> [] | Some d \<Rightarrow> d) ''completed_at''"
       "\<not> has_key (case stats of None \<Rightarrow> [] | Some d \<Rightarrow> d) ''canceled_at''"
    for T e
    using that
    by (simp add: job_terminate_def Let_def has_key_setitem has_key_dict_update)
       (simp add: has_key_def)
  show ?thesis
    using t k [of S err] k [of COMPLETED JNull] k [of JobStatus.ERROR "JStr msg"]
      k [of CANCELED JNull] k [of SUSPENDED JNull]
    by (simp add: job_done_def job_fail_def job_cancel_def job_suspend_def)
qed

theorem terminated_and_terminate_witness:
  "job_terminated \<lparr>doc_id = ''j1'', source = [(''status'', JStr ''canceled'')]\<rparr> = Inr True \<and>
   job_terminated \<lparr>doc_id = ''j2'', source = [(''status'', JStr ''suspended'')]\<rparr> = Inr False \<and>
   has_key (patch (job_cancel sample_clock \<lparr>doc_id = ''j1'', source = []\<rparr>
      (Some [(''indexed_document_count'', JInt 3)]) None)) ''completed_at'' \<and>
   has_key (patch (job_cancel sample_clock \<lparr>doc_id = ''j1'', source = []\<rparr>
      (Some [(''indexed_document_count'', JInt 3)]) None)) ''canceled_at'' \<and>
   \<not> has_key (patch (job_suspend sample_clock \<lparr>doc_id = ''j1'', source = []\<rparr>
      (Some [(''indexed_document_count'', JInt 3)]) None)) ''completed_at'' \<and>
   \<not> has_key (patch (job_suspend sample_clock \<lparr>doc_id = ''j1'', source = []\<rparr>
      (Some [(''indexed_document_count'', JInt 3)]) None)) ''canceled_at''"
proof -
  have c: "job_status \<lparr>doc_id = ''j1'', source = [(''status'', JStr ''canceled'')]\<rparr>
             = Inr CANCELED"
    by (simp add: job_status_def get_def dict_get_def JobStatus_of_value_def)
  have s: "job_status \<lparr>doc_id = ''j2'', source = [(''status'', JStr ''suspended'')]\<rparr>
             = Inr SUSPENDED"
    by (simp add: job_status_def get_def dict_get_def JobStatus_of_value_def)
  have k: "\<not> has_key [(''indexed_document_count'', JInt 3)] ''completed_at'' \<and>
           \<not> has_key [(''indexed_document_count'', JInt 3)] ''canceled_at''"
    by (simp add: has_key_def)
  have a: "job_terminated \<lparr>doc_id = ''j1'', source = [(''status'', JStr ''canceled'')]\<rparr>
             = Inr True"
    using terminated_and_terminate
      [of "\<lparr>doc_id = ''j1'', source = [(''status'', JStr ''canceled'')]\<rparr>" CANCELED] c
    by simp
  have b: "job_terminated \<lparr>doc_id = ''j2'', source = [(''status'', JStr ''suspended'')]\<rparr>
             = Inr False"
    using terminated_and_terminate
      [of "\<lparr>doc_id = ''j2'', source = [(''status'', JStr ''suspended'')]\<rparr>" SUSPENDED] s
    by simp
  show ?thesis
    using a b k terminated_and_terminate
      [where stats = "Some [(''indexed_document_count'', JInt 3)]" and iso_utc = sample_clock
         and j = "\<lparr>doc_id = ''j1'', source = []\<rparr>" and meta = None]
    by simp
qed

text \<open>
  The claim as first stated fails for a call whose ingestion statistics carry a
  \<open>completed_at\<close> key: they are merged into the patch last, so \<open>suspend\<close> then
  writes \<open>completed_at\<close> although \<open>suspended\<close> is no terminal status.
\<close>

theorem terminated_and_terminate_counterexample:
  "SUSPENDED \<notin> {COMPLETED, JobStatus.ERROR, CANCELED} \<and>
   has_key (patch (job_suspend sample_clock \<lparr>doc_id = ''j1'', source = []\<rparr>
      (Some [(''completed_at'', JStr ''2023-03-01T09:00:00+00:00'')]) None)) ''completed_at''"
  by (simp add: job_suspend_def job_terminate_def dict_update_def setitem_def has_key_def)

subsection \<open>Features\<close>

lemma nested_get_end: "v \<noteq> JNull \<Longrightarrow> nested_get v [] dflt = v"
  by (cases v) auto

lemma nested_get_sync_rules:
  "nested_get (JObj m) [''sync_rules'', kind, ''enabled''] (JBool False) = sync_rules_flag m kind"
  by (simp add: sync_rules_flag_def dict_get_def nested_get_end
      split: option.splits json.splits)

text \<open>
  C8. For features that are a dictionary, \<open>feature_enabled\<close> answers at
  \<open>basic_rules_new\<close> the value stored on the path \<open>sync_rules.basic.enabled\<close>
  (false when the path is not there), at \<open>advanced_rules_new\<close> the value stored on
  the path \<open>sync_rules.advanced.enabled\<close> (false when the path is not there), at
  \<open>basic_rules_old\<close> the value stored under \<open>filtering_rules\<close> and at
  \<open>advanced_rules_old\<close> the value stored under \<open>filtering_advanced_config\<close> (false
  when the key is absent); \<open>sync_rules_enabled\<close> is the logical OR of these four;
  and \<open>feature_enabled\<close> answers false at every other name, whatever the features.
\<close>

theorem sync_rules_enabled_or:
  "(features F = JObj m \<longrightarrow>
      feature_enabled F ''basic_rules_new'' = Inr (sync_rules_flag m ''basic'') \<and>
      feature_enabled F ''advanced_rules_new'' = Inr (sync_rules_flag m ''advanced'') \<and>
      feature_enabled F ''basic_rules_old'' =
        Inr (case map_of m ''filtering_rules'' of None \<Rightarrow> JBool False | Some v \<Rightarrow> v) \<and>
      feature_enabled F ''advanced_rules_old'' =
        Inr (case map_of m ''filtering_advanced_config'' of
               None \<Rightarrow> JBool False | Some v \<Rightarrow> v) \<and>
      sync_rules_enabled F =
        Inr (truthy (sync_rules_flag m ''basic'') \<or>
             truthy (sync_rules_flag m ''advanced'') \<or>
             truthy (case map_of m ''filtering_rules'' of
                       None \<Rightarrow> JBool False | Some v \<Rightarrow> v) \<or>
             truthy (case map_of m ''filtering_advanced_config'' of
                       None \<Rightarrow> JBool False | Some v \<Rightarrow> v))) \<and>
   (features F = JObj m \<and> map_of m ''sync_rules'' = Some (JObj sr) \<and>
    map_of sr ''basic'' = Some (JObj rules) \<and> map_of rules ''enabled'' = Some (JBool en)
      \<longrightarrow> feature_enabled F ''basic_rules_new'' = Inr (JBool en)) \<and>
   (features F = JObj m \<and> map_of m ''sync_rules'' = Some (JObj sr) \<and>
    map_of sr ''advanced'' = Some (JObj rules) \<and> map_of rules ''enabled'' = Some (JBool en)
      \<longrightarrow> feature_enabled F ''advanced_rules_new'' = Inr (JBool en)) \<and>
   (features F = JObj m \<and> map_of m ''sync_rules'' = None \<longrightarrow>
      feature_enabled F ''basic_rules_new'' = Inr (JBool False) \<and>
      feature_enabled F ''advanced_rules_new'' = Inr (JBool False)) \<and>
   (name \<notin> {''basic_rules_new'', ''advanced_rules_new'', ''basic_rules_old'',
              ''advanced_rules_old''} \<longrightarrow>
      feature_enabled F name = Inr (JBool False))"
proof -
  have new: "feature_enabled F ''basic_rules_new'' = Inr (sync_rules_flag m ''basic'') \<and>
             feature_enabled F ''advanced_rules_new'' = Inr (sync_rules_flag m ''advanced'')"
    if "features F = JObj m"
    using that nested_get_sync_rules [of m]
    by (simp add: feature_enabled_def nested_feature_enabled_def BASIC_RULES_NEW_def
        ADVANCED_RULES_NEW_def)
  have old: "feature_enabled F ''basic_rules_old'' =
               Inr (case map_of m ''filtering_rules'' of None \<Rightarrow> JBool False | Some v \<Rightarrow> v) \<and>
             feature_enabled F ''advanced_rules_old'' =
               Inr (case map_of m ''filtering_advanced_config'' of
                      None \<Rightarrow> JBool False | Some v \<Rightarrow> v)"
    if "features F = JObj m"
    using that
    by (simp add: feature_enabled_def dict_get_def BASIC_RULES_NEW_def
        ADVANCED_RULES_NEW_def BASIC_RULES_OLD_def ADVANCED_RULES_OLD_def)
  have any: "sync_rules_enabled F =
        Inr (truthy (sync_rules_flag m ''basic'') \<or>
             truthy (sync_rules_flag m ''advanced'') \<or>
             truthy (case map_of m ''filtering_rules'' of
                       None \<Rightarrow> JBool False | Some v \<Rightarrow> v) \<or>
             truthy (case map_of m ''filtering_advanced_config'' of
                       None \<Rightarrow> JBool False | Some v \<Rightarrow> v))"
    if "features F = JObj m"
    using new [OF that] old [OF that]
    by (auto simp: sync_rules_enabled_def BASIC_RULES_NEW_def ADVANCED_RULES_NEW_def
        BASIC_RULES_OLD_def ADVANCED_RULES_OLD_def)
  have path: "sync_rules_flag m kind = JBool en"
    if "map_of m ''sync_rules'' = Some (JObj sr)" "map_of sr kind = Some (JObj rules)"
       "map_of rules ''enabled'' = Some (JBool en)" for kind sr rules en
    using that by (simp add: sync_rules_flag_def)
  have none: "sync_rules_flag m kind = JBool False"
    if "map_of m ''sync_rules'' = None" for kind
    using that by (simp add: sync_rules_flag_def)
  have other: "feature_enabled F name = Inr (JBool False)"
    if "name \<notin> {''basic_rules_new'', ''advanced_rules_new'', ''basic_rules_old'',
              ''advanced_rules_old''}"
    using that
    by (simp add: feature_enabled_def BASIC_RULES_NEW_def ADVANCED_RULES_NEW_def
        BASIC_RULES_OLD_def ADVANCED_RULES_OLD_def)
  show ?thesis
    using new old any path none other by (intro conjI impI) (simp_all)
qed

theorem sync_rules_enabled_or_witness:
  "sync_rules_enabled \<lparr>features = JObj [(''sync_rules'',
       JObj [(''basic'', JObj [(''enabled'', JBool True)])])]\<rparr> = Inr True \<and>
   sync_rules_enabled \<lparr>features = JObj [(''sync_rules'',
       JObj [(''basic'', JObj [(''enabled'', JBool False)]),
             (''advanced'', JObj [(''enabled'', JBool False)])])]\<rparr> = Inr False \<and>
   feature_enabled \<lparr>features = JObj [(''sync_rules'',
       JObj [(''basic'', JObj [(''enabled'', JBool False)]),
             (''advanced'', JObj [(''enabled'', JBool True)])])]\<rparr> ''basic_rules_new''
     = Inr (JBool False) \<and>
   feature_enabled \<lparr>features = JObj [(''sync_rules'',
       JObj [(''basic'', JObj [(''enabled'', JBool False)]),
             (''advanced'', JObj [(''enabled'', JBool True)])])]\<rparr> ''advanced_rules_new''
     = Inr (JBool True) \<and>
   sync_rules_enabled \<lparr>features = JObj [(''filtering_rules'', JBool False)]\<rparr> = Inr False \<and>
   sync_rules_enabled \<lparr>features = JObj [(''filtering_advanced_config'', JBool True)]\<rparr>
     = Inr True \<and>
   feature_enabled \<lparr>features = JObj [(''filtering_rules'', JBool True)]\<rparr>
     ''document_level_security'' = Inr (JBool False)"
proof -
  have a: "sync_rules_enabled \<lparr>features = JObj [(''sync_rules'',
       JObj [(''basic'', JObj [(''enabled'', JBool True)])])]\<rparr> = Inr True"
    using sync_rules_enabled_or [where F = "\<lparr>features = JObj [(''sync_rules'',
       JObj [(''basic'', JObj [(''enabled'', JBool True)])])]\<rparr>"
       and m = "[(''sync_rules'', JObj [(''basic'', JObj [(''enabled'', JBool True)])])]"]
    by (simp add: sync_rules_flag_def)
  have b: "sync_rules_enabled \<lparr>features = JObj [(''sync_rules'',
       JObj [(''basic'', JObj [(''enabled'', JBool False)]),
             (''advanced'', JObj [(''enabled'', JBool False)])])]\<rparr> = Inr False"
    using sync_rules_enabled_or [where F = "\<lparr>features = JObj [(''sync_rules'',
       JObj [(''basic'', JObj [(''enabled'', JBool False)]),
             (''advanced'', JObj [(''enabled'', JBool False)])])]\<rparr>"
       and m = "[(''sync_rules'', JObj [(''basic'', JObj [(''enabled'', JBool False)]),
             (''advanced'', JObj [(''enabled'', JBool False)])])]"]
    by (simp add: sync_rules_flag_def)
  have c: "feature_enabled \<lparr>features = JObj [(''sync_rules'',
       JObj [(''basic'', JObj [(''enabled'', JBool False)]),
             (''advanced'', JObj [(''enabled'', JBool True)])])]\<rparr> ''basic_rules_new''
     = Inr (JBool False)"
    using sync_rules_enabled_or [where F = "\<lparr>features = JObj [(''sync_rules'',
       JObj [(''basic'', JObj [(''enabled'', JBool False)]),
             (''advanced'', JObj [(''enabled'', JBool True)])])]\<rparr>"
       and m = "[(''sync_rules'', JObj [(''basic'', JObj [(''enabled'', JBool False)]),
             (''advanced'', JObj [(''enabled'', JBool True)])])]"
       and sr = "[(''basic'', JObj [(''enabled'', JBool False)]),
             (''advanced'', JObj [(''enabled'', JBool True)])]"
       and rules = "[(''enabled'', JBool False)]" and en = False
       and name = "''basic_rules_new''"]
    by (simp add: sync_rules_flag_def)
  have d: "feature_enabled \<lparr>features = JObj [(''sync_rules'',
       JObj [(''basic'', JObj [(''enabled'', JBool False)]),
             (''advanced'', JObj [(''enabled'', JBool True)])])]\<rparr> ''advanced_rules_new''
     = Inr (JBool True)"
    using sync_rules_enabled_or [where F = "\<lparr>features = JObj [(''sync_rules'',
       JObj [(''basic'', JObj [(''enabled'', JBool False)]),
             (''advanced'', JObj [(''enabled'', JBool True)])])]\<rparr>"
       and m = "[(''sync_rules'', JObj [(''basic'', JObj [(''enabled'', JBool False)]),
             (''advanced'', JObj [(''enabled'', JBool True)])])]"
       and sr = "[(''basic'', JObj [(''enabled'', JBool False)]),
             (''advanced'', JObj [(''enabled'', JBool True)])]"
       and rules = "[(''enabled'', JBool True)]" and en = True
       and name = "''advanced_rules_new''"]
    by (simp add: sync_rules_flag_def)
  have e: "sync_rules_enabled \<lparr>features = JObj [(''filtering_rules'', JBool False)]\<rparr>
             = Inr False"
    using sync_rules_enabled_or [where F = "\<lparr>features = JObj [(''filtering_rules'', JBool False)]\<rparr>"
       and m = "[(''filtering_rules'', JBool False)]"]
    by (simp add: sync_rules_flag_def)
  have f: "sync_rules_enabled \<lparr>features = JObj [(''filtering_advanced_config'', JBool True)]\<rparr>
             = Inr True"
    using sync_rules_enabled_or
      [where F = "\<lparr>features = JObj [(''filtering_advanced_config'', JBool True)]\<rparr>"
       and m = "[(''filtering_advanced_config'', JBool True)]"]
    by (simp add: sync_rules_flag_def)
  have g: "feature_enabled \<lparr>features = JObj [(''filtering_rules'', JBool True)]\<rparr>
             ''document_level_security'' = Inr (JBool False)"
    using sync_rules_enabled_or [where F = "\<lparr>features = JObj [(''filtering_rules'', JBool True)]\<rparr>"
       and name = "''document_level_security''"]
    by simp
  show ?thesis using a b c d e f g by simp
qed

subsection \<open>Filter and Connector.validate_filtering\<close>

lemma find_filter_skip:
  assumes "\<forall>x \<in> set pre. \<exists>m dm. x = JObj m \<and> map_of m ''domain'' = Some dm \<and> dm \<noteq> JStr domain"
  shows "find_filter (pre @ bs) filter_state domain = find_filter bs filter_state domain"
  using assms by (induction pre) auto

text \<open>
  C10. The \<open>Filter\<close> built from a dictionary without a \<open>validation\<close> key has the
  validation state \<open>valid\<close> with an empty error list, so
  \<open>has_validation_state(EDITED)\<close> is false for it; and \<open>validate_filtering\<close> on a
  connector whose draft of the default domain (the draft of the first bundle of that
  domain) lacks a validation block is a no-op: no call of the validator, no write.
\<close>

theorem filter_without_validation:
  "(map_of d ''validation'' = None \<longrightarrow>
      (\<exists>f. Filter_init (JObj d) = Inr f \<and> items f = d \<and>
           validation f = JObj [(''state'', JStr ''valid''), (''errors'', JList [])] \<and>
           has_validation_state f VALID = Inr True \<and>
           has_validation_state f EDITED = Inr False)) \<and>
   (filtering c = JList (pre @ JObj b # post) \<and>
    (\<forall>x \<in> set pre. \<exists>m dm. x = JObj m \<and> map_of m ''domain'' = Some dm \<and>
                        dm \<noteq> JStr ''DEFAULT'') \<and>
    map_of b ''domain'' = Some (JStr ''DEFAULT'') \<and>
    map_of b ''draft'' = Some (JObj d) \<and>
    map_of d ''validation'' = None \<longrightarrow>
      validate_filtering validator c = Inr [])"
proof -
  have init: "Filter_init (JObj d) =
      Inr \<lparr>items = d, advanced_rules = dict_get d ''advanced_snippet'' (JObj []),
           basic_rules = dict_get d ''rules'' (JList []),
           validation = JObj [(''state'', JStr ''valid''), (''errors'', JList [])]\<rparr>"
    if "map_of d ''validation'' = None"
    using that by (simp add: Filter_init_def dict_get_def)
  have hv: "has_validation_state
      \<lparr>items = d, advanced_rules = a, basic_rules = r,
       validation = JObj [(''state'', JStr ''valid''), (''errors'', JList [])]\<rparr> st
      = Inr (VALID = st)" for a r st
    by (simp add: has_validation_state_def FilteringValidationState_of_value_def)
  have one: "map_of d ''validation'' = None \<Longrightarrow>
      (\<exists>f. Filter_init (JObj d) = Inr f \<and> items f = d \<and>
           validation f = JObj [(''state'', JStr ''valid''), (''errors'', JList [])] \<and>
           has_validation_state f VALID = Inr True \<and>
           has_validation_state f EDITED = Inr False)"
    by (simp add: init hv)
  have two: "validate_filtering validator c = Inr []"
    if f: "filtering c = JList (pre @ JObj b # post)"
      and p: "\<forall>x \<in> set pre. \<exists>m dm. x = JObj m \<and> map_of m ''domain'' = Some dm \<and>
                        dm \<noteq> JStr ''DEFAULT''"
      and dom: "map_of b ''domain'' = Some (JStr ''DEFAULT'')"
      and dr: "map_of b ''draft'' = Some (JObj d)"
      and nv: "map_of d ''validation'' = None"
  proof -
    have "get_draft_filter (filtering c) = find_filter (JObj b # post) ''draft'' ''DEFAULT''"
      using find_filter_skip [OF p, of "JObj b # post" "''draft''"]
      by (simp add: get_draft_filter_def get_filter_def f DEFAULT_DOMAIN_def)
    also have "\<dots> = Filter_init (JObj d)"
      by (simp add: dom dr)
    finally show ?thesis
      by (simp add: validate_filtering_def init [OF nv] hv)
  qed
  show ?thesis using one two by blast
qed


theorem filter_without_validation_witness:
  "(\<exists>f. Filter_init (JObj [(''rules'', JList [])]) = Inr f \<and>
        validation f = JObj [(''state'', JStr ''valid''), (''errors'', JList [])] \<and>
        has_validation_state f EDITED = Inr False) \<and>
   validate_filtering (\<lambda>f. \<lparr>state = INVALID, to_dict = JObj [(''state'', JStr ''invalid'')]\<rparr>)
     \<lparr>doc_id = ''c1'', source = [(''filtering'', JList
        [JObj [(''domain'', JStr ''OTHER''), (''draft'', JObj []), (''active'', JObj [])],
         JObj [(''domain'', JStr ''DEFAULT''), (''draft'', JObj [(''rules'', JList [])]),
               (''active'', JObj [])]])]\<rparr> = Inr []"
proof -
  have f: "filtering \<lparr>doc_id = ''c1'', source = [(''filtering'', JList
        [JObj [(''domain'', JStr ''OTHER''), (''draft'', JObj []), (''active'', JObj [])],
         JObj [(''domain'', JStr ''DEFAULT''), (''draft'', JObj [(''rules'', JList [])]),
               (''active'', JObj [])]])]\<rparr> =
      JList ([JObj [(''domain'', JStr ''OTHER''), (''draft'', JObj []), (''active'', JObj [])]]
        @ JObj [(''domain'', JStr ''DEFAULT''), (''draft'', JObj [(''rules'', JList [])]),
               (''active'', JObj [])] # [])"
    by (simp add: filtering_def get_def dict_get_def)
  have p: "\<forall>x \<in> set [JObj [(''domain'', JStr ''OTHER''), (''draft'', JObj []),
              (''active'', JObj [])]].
            \<exists>m dm. x = JObj m \<and> map_of m ''domain'' = Some dm \<and> dm \<noteq> JStr ''DEFAULT''"
    by simp
  have k: "map_of [(''domain'', JStr ''DEFAULT''), (''draft'', JObj [(''rules'', JList [])]),
               (''active'', JObj [])] ''domain'' = Some (JStr ''DEFAULT'') \<and>
           map_of [(''domain'', JStr ''DEFAULT''), (''draft'', JObj [(''rules'', JList [])]),
               (''active'', JObj [])] ''draft'' = Some (JObj [(''rules'', JList [])]) \<and>
           map_of [(''rules'', JList [])] ''validation'' = None"
    by simp
  note inst = filter_without_validation
    [of "[(''rules'', JList [])]"
        "\<lparr>doc_id = ''c1'', source = [(''filtering'', JList
        [JObj [(''domain'', JStr ''OTHER''), (''draft'', JObj []), (''active'', JObj [])],
         JObj [(''domain'', JStr ''DEFAULT''), (''draft'', JObj [(''rules'', JList [])]),
               (''active'', JObj [])]])]\<rparr>"
        "[JObj [(''domain'', JStr ''OTHER''), (''draft'', JObj []), (''active'', JObj [])]]"
        "[(''domain'', JStr ''DEFAULT''), (''draft'', JObj [(''rules'', JList [])]),
               (''active'', JObj [])]"
        "[]"
        "\<lambda>f. \<lparr>state = INVALID, to_dict = JObj [(''state'', JStr ''invalid'')]\<rparr>"]
  have a: "\<exists>f. Filter_init (JObj [(''rules'', JList [])]) = Inr f \<and>
        validation f = JObj [(''state'', JStr ''valid''), (''errors'', JList [])] \<and>
        has_validation_state f EDITED = Inr False"
  proof -
    have "map_of [(''rules'', JList [])] ''validation'' = None" by simp
    from mp [OF conjunct1 [OF inst] this] show ?thesis by blast
  qed
  have b: "validate_filtering
     (\<lambda>f. \<lparr>state = INVALID, to_dict = JObj [(''state'', JStr ''invalid'')]\<rparr>)
     \<lparr>doc_id = ''c1'', source = [(''filtering'', JList
        [JObj [(''domain'', JStr ''OTHER''), (''draft'', JObj []), (''active'', JObj [])],
         JObj [(''domain'', JStr ''DEFAULT''), (''draft'', JObj [(''rules'', JList [])]),
               (''active'', JObj [])]])]\<rparr> = Inr []"
    by (rule mp [OF conjunct2 [OF inst]]) (simp add: f)
  show ?thesis using a b by blast
qed

subsection \<open>Connector.prepare\<close>

text \<open>
  C6 (as amended). \<open>prepare(config)\<close> is a no-op (no write, no error) when the
  connector id of \<open>config\<close> differs from the id of the connector, and also when the
  service type of the connector is set and its configuration is non-empty. When the
  ids agree, the configuration of the connector is empty, a service type is at hand
  (\<open>config\<close> names a non-empty one, or the connector has one already) and the
  configured service type is no key of the \<open>sources\<close> of \<open>config\<close>, \<open>prepare\<close>
  raises \<open>ServiceTypeNotSupportedError\<close>; in particular with \<open>sources = {}\<close>, a
  configured non-empty service type and a connector of the configured id without
  service type and configuration.
\<close>

theorem prepare_cases:
  "(doc_id c \<noteq> configured_connector_id_of cfg \<longrightarrow>
      prepare is_empty gsc update_ok cfg c = Inr []) \<and>
   (service_type c \<noteq> JNull \<and> \<not> is_empty (configuration c) \<longrightarrow>
      prepare is_empty gsc update_ok cfg c = Inr []) \<and>
   (doc_id c = configured_connector_id_of cfg \<and> is_empty (configuration c) \<and>
    (configured_service_type_of cfg \<noteq> [] \<or> service_type c \<noteq> JNull) \<and>
    cfg_sources cfg = Some sources \<and>
    map_of sources (configured_service_type_of cfg) = None \<longrightarrow>
      prepare is_empty gsc update_ok cfg c =
        Inl (ServiceTypeNotSupportedError (configured_service_type_of cfg))) \<and>
   (doc_id c = configured_connector_id_of cfg \<and> is_empty (configuration c) \<and>
    service_type c = JNull \<and> configured_service_type_of cfg \<noteq> [] \<and>
    cfg_sources cfg = Some [] \<longrightarrow>
      prepare is_empty gsc update_ok cfg c =
        Inl (ServiceTypeNotSupportedError (configured_service_type_of cfg)))"
  by (auto simp: prepare_def Let_def)

theorem prepare_cases_witness:
  "prepare sample_is_empty sample_simple_configuration sample_update_ok
     \<lparr>cfg_connector_id = Some ''Y'', cfg_service_type = Some ''jira'', cfg_sources = Some []\<rparr>
     \<lparr>doc_id = ''X'', source = []\<rparr> = Inr [] \<and>
   prepare sample_is_empty sample_simple_configuration sample_update_ok
     \<lparr>cfg_connector_id = Some ''X'', cfg_service_type = Some ''jira'', cfg_sources = Some []\<rparr>
     \<lparr>doc_id = ''X'', source = [(''service_type'', JStr ''jira''),
        (''configuration'', JObj [(''host_url'', JObj [(''value'', JStr ''http://jira'')])])]\<rparr>
     = Inr [] \<and>
   prepare sample_is_empty sample_simple_configuration sample_update_ok
     \<lparr>cfg_connector_id = Some ''X'', cfg_service_type = Some ''jira'',
      cfg_sources = Some [(''mongodb'', ''connectors.sources.mongo:MongoDataSource'')]\<rparr>
     \<lparr>doc_id = ''X'', source = []\<rparr> = Inl (ServiceTypeNotSupportedError ''jira'') \<and>
   prepare sample_is_empty sample_simple_configuration sample_update_ok
     \<lparr>cfg_connector_id = Some ''X'', cfg_service_type = Some ''jira'', cfg_sources = Some []\<rparr>
     \<lparr>doc_id = ''X'', source = []\<rparr> = Inl (ServiceTypeNotSupportedError ''jira'')"
proof -
  have a: "prepare sample_is_empty sample_simple_configuration sample_update_ok
     \<lparr>cfg_connector_id = Some ''Y'', cfg_service_type = Some ''jira'', cfg_sources = Some []\<rparr>
     \<lparr>doc_id = ''X'', source = []\<rparr> = Inr []"
    using prepare_cases [of "\<lparr>doc_id = ''X'', source = []\<rparr>"
      "\<lparr>cfg_connector_id = Some ''Y'', cfg_service_type = Some ''jira'',
        cfg_sources = Some []\<rparr>"
      sample_is_empty sample_simple_configuration sample_update_ok]
    by (simp add: configured_connector_id_of_def)
  have b: "prepare sample_is_empty sample_simple_configuration sample_update_ok
     \<lparr>cfg_connector_id = Some ''X'', cfg_service_type = Some ''jira'', cfg_sources = Some []\<rparr>
     \<lparr>doc_id = ''X'', source = [(''service_type'', JStr ''jira''),
        (''configuration'', JObj [(''host_url'', JObj [(''value'', JStr ''http://jira'')])])]\<rparr>
     = Inr []"
    using prepare_cases [of "\<lparr>doc_id = ''X'', source = [(''service_type'', JStr ''jira''),
        (''configuration'', JObj [(''host_url'', JObj [(''value'', JStr ''http://jira'')])])]\<rparr>"
      "\<lparr>cfg_connector_id = Some ''X'', cfg_service_type = Some ''jira'',
        cfg_sources = Some []\<rparr>"
      sample_is_empty sample_simple_configuration sample_update_ok]
    by (simp add: service_type_def configuration_def get_def dict_get_def sample_is_empty_def)
  have e: "sample_is_empty (configuration \<lparr>doc_id = ''X'', source = []\<rparr>) \<and>
           service_type \<lparr>doc_id = ''X'', source = []\<rparr> = JNull"
    by (simp add: service_type_def configuration_def get_def dict_get_def sample_is_empty_def)
  have c: "prepare sample_is_empty sample_simple_configuration sample_update_ok
     \<lparr>cfg_connector_id = Some ''X'', cfg_service_type = Some ''jira'',
      cfg_sources = Some [(''mongodb'', ''connectors.sources.mongo:MongoDataSource'')]\<rparr>
     \<lparr>doc_id = ''X'', source = []\<rparr> = Inl (ServiceTypeNotSupportedError ''jira'')"
    using e prepare_cases [of "\<lparr>doc_id = ''X'', source = []\<rparr>"
      "\<lparr>cfg_connector_id = Some ''X'', cfg_service_type = Some ''jira'',
        cfg_sources = Some [(''mongodb'', ''connectors.sources.mongo:MongoDataSource'')]\<rparr>"
      sample_is_empty sample_simple_configuration sample_update_ok
      "[(''mongodb'', ''connectors.sources.mongo:MongoDataSource'')]"]
    by (simp add: configured_connector_id_of_def configured_service_type_of_def)
  have d: "prepare sample_is_empty sample_simple_configuration sample_update_ok
     \<lparr>cfg_connector_id = Some ''X'', cfg_service_type = Some ''jira'', cfg_sources = Some []\<rparr>
     \<lparr>doc_id = ''X'', source = []\<rparr> = Inl (ServiceTypeNotSupportedError ''jira'')"
    using e prepare_cases [of "\<lparr>doc_id = ''X'', source = []\<rparr>"
      "\<lparr>cfg_connector_id = Some ''X'', cfg_service_type = Some ''jira'',
        cfg_sources = Some []\<rparr>"
      sample_is_empty sample_simple_configuration sample_update_ok "[]"]
    by (simp add: configured_connector_id_of_def configured_service_type_of_def)
  show ?thesis using a b c d by simp
qed

text \<open>
  The claim as first stated fails when no service type is at hand: for a connector
  of the configured id without service type and configuration, and a \<open>config\<close>
  with \<open>sources = {}\<close> that names no service type, the configured service type (the
  empty string) is no key of \<open>sources\<close>, yet the earlier test of \<open>prepare\<close> raises
  \<open>ServiceTypeNotConfiguredError\<close>.
\<close>

theorem prepare_cases_counterexample:
  "doc_id \<lparr>doc_id = ''X'', source = []\<rparr> = configured_connector_id_of
     \<lparr>cfg_connector_id = Some ''X'', cfg_service_type = None, cfg_sources = Some []\<rparr> \<and>
   sample_is_empty (configuration \<lparr>doc_id = ''X'', source = []\<rparr>) \<and>
   service_type \<lparr>doc_id = ''X'', source = []\<rparr> = JNull \<and>
   map_of ([] :: (string \<times> string) list) (configured_service_type_of
     \<lparr>cfg_connector_id = Some ''X'', cfg_service_type = None, cfg_sources = Some []\<rparr>)
     = None \<and>
   prepare sample_is_empty sample_simple_configuration sample_update_ok
     \<lparr>cfg_connector_id = Some ''X'', cfg_service_type = None, cfg_sources = Some []\<rparr>
     \<lparr>doc_id = ''X'', source = []\<rparr> = Inl ServiceTypeNotConfiguredError"
  by (simp add: prepare_def service_type_def configuration_def get_def dict_get_def
      sample_is_empty_def configured_connector_id_of_def configured_service_type_of_def)

subsection \<open>Filter.transform_filtering\<close>

lemma erase_deepcopy:
  "erase (fst (deepcopy x st)) = erase x"
  "map erase (fst (deepcopy_list xs st)) = map erase xs"
  "map (\<lambda>(k, v). (k, erase v)) (fst (deepcopy_items kvs st)) = map (\<lambda>(k, v). (k, erase v)) kvs"
  by (induction x st and xs st and kvs st rule: deepcopy_deepcopy_list_deepcopy_items.induct)
     (auto simp: Let_def split: prod.splits)

lemma keys_deepcopy_items: "deepcopy_items kvs st = (kvs', st') \<Longrightarrow> map fst kvs' = map fst kvs"
  by (induction kvs arbitrary: st kvs' st') (auto simp: Let_def split: prod.splits)

lemma copy_cell_fresh:
  assumes "fresh_from n0 st" "copy_cell a st = (a', st1)"
  shows "fresh_from n0 st1 \<and> n0 \<le> a' \<and> a' < fst st1 \<and> fst st \<le> fst st1"
  using assms
  by (auto simp: fresh_from_def copy_cell_def less_Suc_eq split: option.splits if_splits)

lemma deepcopy_fresh:
  "fresh_from n0 st \<Longrightarrow> deepcopy x st = (y, st') \<Longrightarrow>
     fresh_from n0 st' \<and> fst st \<le> fst st' \<and> (\<forall>b \<in> addrs y. n0 \<le> b \<and> b < fst st')"
  "fresh_from n0 st \<Longrightarrow> deepcopy_list xs st = (ys, st') \<Longrightarrow>
     fresh_from n0 st' \<and> fst st \<le> fst st' \<and>
     (\<forall>y \<in> set ys. \<forall>b \<in> addrs y. n0 \<le> b \<and> b < fst st')"
  "fresh_from n0 st \<Longrightarrow> deepcopy_items kvs st = (kvs', st') \<Longrightarrow>
     fresh_from n0 st' \<and> fst st \<le> fst st' \<and>
     (\<forall>(k, v) \<in> set kvs'. \<forall>b \<in> addrs v. n0 \<le> b \<and> b < fst st')"
proof (induction x st and xs st and kvs st arbitrary: y st' and ys st' and kvs' st'
    rule: deepcopy_deepcopy_list_deepcopy_items.induct)
  case (1 a xs st)
  obtain a' st1 where c: "copy_cell a st = (a', st1)" by (cases "copy_cell a st")
  obtain ys st2 where d: "deepcopy_list xs st1 = (ys, st2)" by (cases "deepcopy_list xs st1")
  from copy_cell_fresh [OF "1.prems"(1) c]
  have f1: "fresh_from n0 st1" "n0 \<le> a'" "a' < fst st1" "fst st \<le> fst st1" by auto
  from "1.IH" [OF c [symmetric] refl f1(1) d]
  have f2: "fresh_from n0 st2" "fst st1 \<le> fst st2"
    "\<forall>y \<in> set ys. \<forall>b \<in> addrs y. n0 \<le> b \<and> b < fst st2" by auto
  from "1.prems"(2) c d have "y = OList a' ys" "st' = st2" by (auto simp: Let_def)
  then show ?case using f1 f2 by auto
next
  case (2 a kvs st)
  obtain a' st1 where c: "copy_cell a st = (a', st1)" by (cases "copy_cell a st")
  obtain ys st2 where d: "deepcopy_items kvs st1 = (ys, st2)" by (cases "deepcopy_items kvs st1")
  from copy_cell_fresh [OF "2.prems"(1) c]
  have f1: "fresh_from n0 st1" "n0 \<le> a'" "a' < fst st1" "fst st \<le> fst st1" by auto
  from "2.IH" [OF c [symmetric] refl f1(1) d]
  have f2: "fresh_from n0 st2" "fst st1 \<le> fst st2"
    "\<forall>(k, v) \<in> set ys. \<forall>b \<in> addrs v. n0 \<le> b \<and> b < fst st2" by auto
  from "2.prems"(2) c d have "y = ODict a' ys" "st' = st2" by (auto simp: Let_def)
  then show ?case using f1 f2 by auto
next
  case (5 x xs st)
  obtain z st1 where c: "deepcopy x st = (z, st1)" by (cases "deepcopy x st")
  obtain zs st2 where d: "deepcopy_list xs st1 = (zs, st2)" by (cases "deepcopy_list xs st1")
  from "5.IH"(1) [OF "5.prems"(1) c]
  have f1: "fresh_from n0 st1" "fst st \<le> fst st1" "\<forall>b \<in> addrs z. n0 \<le> b \<and> b < fst st1"
    by auto
  from "5.IH"(2) [OF c [symmetric] refl f1(1) d]
  have f2: "fresh_from n0 st2" "fst st1 \<le> fst st2"
    "\<forall>y \<in> set zs. \<forall>b \<in> addrs y. n0 \<le> b \<and> b < fst st2" by auto
  from "5.prems"(2) c d have "ys = z # zs" "st' = st2" by (auto simp: Let_def)
  then show ?case using f1 f2 by fastforce
next
  case (7 k v kvs st)
  obtain z st1 where c: "deepcopy v st = (z, st1)" by (cases "deepcopy v st")
  obtain zs st2 where d: "deepcopy_items kvs st1 = (zs, st2)" by (cases "deepcopy_items kvs st1")
  from "7.IH"(1) [OF "7.prems"(1) c]
  have f1: "fresh_from n0 st1" "fst st \<le> fst st1" "\<forall>b \<in> addrs z. n0 \<le> b \<and> b < fst st1"
    by auto
  from "7.IH"(2) [OF c [symmetric] refl f1(1) d]
  have f2: "fresh_from n0 st2" "fst st1 \<le> fst st2"
    "\<forall>(k, v) \<in> set zs. \<forall>b \<in> addrs v. n0 \<le> b \<and> b < fst st2" by auto
  from "7.prems"(2) c d have "kvs' = (k, z) # zs" "st' = st2" by (auto simp: Let_def)
  then show ?case using f1 f2 by fastforce
qed auto

lemma mutate_other: "a \<notin> addrs x \<Longrightarrow> mutate a g x = x"
proof (induction a g x rule: mutate.induct)
  case (1 a g b xs)
  then have "map (mutate a g) xs = xs" by (auto intro: map_idI)
  with 1 show ?case by simp
next
  case (2 a g b kvs)
  then have "map (\<lambda>(k, v). (k, mutate a g v)) kvs = kvs"
    by (intro map_idI) (auto split: prod.splits)
  with 2 show ?case by simp
qed auto

text \<open>
  C7. \<open>transform_filtering\<close> returns exactly \<open>{advanced_snippet: {}, rules: []}\<close>
  when the filter is empty. When it is not, and \<open>n\<close> is indeed free (every cell of
  the filter lies below it), the result is a dictionary equal to the filter, with
  the same keys in the same order, none of whose cells is a cell of the filter:
  mutating any cell of the result, in any way, leaves the filter as it was.
\<close>

theorem transform_filtering_copy:
  "(self_items = [] \<longrightarrow>
      erase (fst (transform_filtering self_addr self_items n)) =
        JObj [(''advanced_snippet'', JObj []), (''rules'', JList [])]) \<and>
   (self_items \<noteq> [] \<and> (\<forall>b \<in> addrs (ODict self_addr self_items). b < n) \<longrightarrow>
      erase (fst (transform_filtering self_addr self_items n)) =
        erase (ODict self_addr self_items) \<and>
      (\<exists>a' kvs'. fst (transform_filtering self_addr self_items n) = ODict a' kvs' \<and>
                 map fst kvs' = map fst self_items) \<and>
      addrs (fst (transform_filtering self_addr self_items n)) \<inter>
        addrs (ODict self_addr self_items) = {} \<and>
      (\<forall>b \<in> addrs (fst (transform_filtering self_addr self_items n)). \<forall>g.
         mutate b g (ODict self_addr self_items) = ODict self_addr self_items))"
proof (intro conjI impI)
  assume "self_items = []"
  then show "erase (fst (transform_filtering self_addr self_items n)) =
        JObj [(''advanced_snippet'', JObj []), (''rules'', JList [])]"
    by (simp add: transform_filtering_def)
next
  assume h: "self_items \<noteq> [] \<and> (\<forall>b \<in> addrs (ODict self_addr self_items). b < n)"
  let ?f = "ODict self_addr self_items"
  obtain y st' where d: "deepcopy ?f (n, Map.empty) = (y, st')"
    by (cases "deepcopy ?f (n, Map.empty)")
  have r: "fst (transform_filtering self_addr self_items n) = y"
    using h d by (simp add: transform_filtering_def)
  have "fresh_from n (n, Map.empty)" by (simp add: fresh_from_def)
  from deepcopy_fresh(1) [OF this d] have fresh: "\<forall>b \<in> addrs y. n \<le> b" by auto
  have old: "\<forall>b \<in> addrs ?f. b < n" using h by simp
  have disj: "addrs y \<inter> addrs ?f = {}"
  proof (rule ccontr)
    assume "addrs y \<inter> addrs ?f \<noteq> {}"
    then obtain b where "b \<in> addrs y" "b \<in> addrs ?f" by blast
    with fresh old have "n \<le> b" "b < n" by auto
    then show False by simp
  qed
  show "erase (fst (transform_filtering self_addr self_items n)) = erase ?f"
    using erase_deepcopy(1) [of ?f "(n, Map.empty)"] d r by simp
  show "\<exists>a' kvs'. fst (transform_filtering self_addr self_items n) = ODict a' kvs' \<and>
                 map fst kvs' = map fst self_items"
  proof -
    obtain a' st1 where c: "copy_cell self_addr (n, Map.empty) = (a', st1)"
      by (cases "copy_cell self_addr (n, Map.empty)")
    obtain kvs' st2 where i: "deepcopy_items self_items st1 = (kvs', st2)"
      by (cases "deepcopy_items self_items st1")
    from d c i have "y = ODict a' kvs'" by (simp add: Let_def)
    with keys_deepcopy_items [OF i] r show ?thesis by simp
  qed
  show "addrs (fst (transform_filtering self_addr self_items n)) \<inter> addrs ?f = {}"
    using disj r by simp
  show "\<forall>b \<in> addrs (fst (transform_filtering self_addr self_items n)). \<forall>g.
         mutate b g ?f = ?f"
  proof (intro ballI allI)
    fix b g
    assume "b \<in> addrs (fst (transform_filtering self_addr self_items n))"
    with disj r have "b \<notin> addrs ?f" by auto
    then show "mutate b g ?f = ?f" by (rule mutate_other)
  qed
qed

theorem transform_filtering_copy_witness:
  "erase (fst (transform_filtering 0 [] 1)) =
     JObj [(''advanced_snippet'', JObj []), (''rules'', JList [])] \<and>
   erase (fst (transform_filtering 0
      [(''rules'', OList 1 [ODict 2 [(''id'', OStr ''r1'')]])] 3)) =
     JObj [(''rules'', JList [JObj [(''id'', JStr ''r1'')]])] \<and>
   addrs (fst (transform_filtering 0
      [(''rules'', OList 1 [ODict 2 [(''id'', OStr ''r1'')]])] 3)) \<inter> {0, 1, 2} = {}"
proof -
  have a: "erase (fst (transform_filtering 0 [] 1)) =
     JObj [(''advanced_snippet'', JObj []), (''rules'', JList [])]"
    using transform_filtering_copy [of "[]" 0 1] by simp
  have h: "[(''rules'', OList 1 [ODict 2 [(''id'', OStr ''r1'')]])] \<noteq> [] \<and>
     (\<forall>b \<in> addrs (ODict 0 [(''rules'', OList 1 [ODict 2 [(''id'', OStr ''r1'')]])]). b < 3)"
    by simp
  have s: "addrs (ODict 0 [(''rules'', OList 1 [ODict 2 [(''id'', OStr ''r1'')]])]) = {0, 1, 2}"
    by auto
  from mp [OF conjunct2 [OF transform_filtering_copy
      [of "[(''rules'', OList 1 [ODict 2 [(''id'', OStr ''r1'')]])]" 0 3]] h]
  have b: "erase (fst (transform_filtering 0
      [(''rules'', OList 1 [ODict 2 [(''id'', OStr ''r1'')]])] 3)) =
     erase (ODict 0 [(''rules'', OList 1 [ODict 2 [(''id'', OStr ''r1'')]])])"
    and c: "addrs (fst (transform_filtering 0
      [(''rules'', OList 1 [ODict 2 [(''id'', OStr ''r1'')]])] 3)) \<inter>
      addrs (ODict 0 [(''rules'', OList 1 [ODict 2 [(''id'', OStr ''r1'')]])]) = {}"
    by blast+
  have b': "erase (fst (transform_filtering 0
      [(''rules'', OList 1 [ODict 2 [(''id'', OStr ''r1'')]])] 3)) =
     JObj [(''rules'', JList [JObj [(''id'', JStr ''r1'')]])]"
    using b by simp
  show ?thesis using a b' c unfolding s by blast
qed

subsection \<open>JiraDataSource.get_docs\<close>













end
